theory Spec2Isabelle
  imports Complex_Main "HOL-Library.Sublist"
begin

section \<open>JavaScript values used by \<open>figma-fetch.js\<close>\<close>

text \<open>
  The development embeds the functions \<open>extractNodeStructure\<close>, \<open>getImages\<close>,
  \<open>collectImageNodes\<close> and \<open>getNodeStructure\<close> of \<open>src/scripts/figma-fetch.js\<close>.

  Numbers are exact rationals: the design file states its measurements as short decimal
  literals, and the code only multiplies, divides by 100, compares and rounds them.
  A field that may be absent from the JSON node (\<open>undefined\<close> when read) is an option.
  An object literal used as a lookup table is an association list read with \<open>map_of\<close>;
  a table with numeric keys is keyed by the number (JavaScript converts the number to
  its decimal name, which is injective), and only a table's own keys are looked up.
\<close>

type_synonym number = rat

definition Math_round :: "number \<Rightarrow> int" where
  "Math_round x = \<lfloor>x + 1 / 2\<rfloor>"

fun string_of_nat :: "nat \<Rightarrow> string" where
  "string_of_nat n =
     (if n < 10 then [''0123456789'' ! n]
      else string_of_nat (n div 10) @ [''0123456789'' ! (n mod 10)])"

declare string_of_nat.simps [simp del]

definition int_toString :: "int \<Rightarrow> string" where
  "int_toString i = (if i < 0 then ''-'' @ string_of_nat (nat (- i)) else string_of_nat (nat i))"

fun frac_digits :: "nat \<Rightarrow> number \<Rightarrow> string" where
  "frac_digits 0 x = []"
| "frac_digits (Suc k) x =
     (if x = 0 then []
      else (''0123456789'' ! nat \<lfloor>x * 10\<rfloor>) # frac_digits k (x * 10 - of_int \<lfloor>x * 10\<rfloor>))"

text \<open>
  \<open>Number_toString\<close> is the conversion a template literal applies to a number: the
  integer part in decimal and, for a value that is not an integer, a point and the
  decimal digits of the fraction. It prints at most 17 digits of the fraction and never
  switches to exponent notation (JavaScript does below \<open>1e-6\<close> and from \<open>1e21\<close> on); no
  result below depends on which digits are printed.
\<close>

definition Number_toString :: "number \<Rightarrow> string" where
  "Number_toString x =
     (let a = \<bar>x\<bar>; i = \<lfloor>a\<rfloor>; f = a - of_int i
      in (if x < 0 then ''-'' else '''') @ string_of_nat (nat i) @
         (if f = 0 then '''' else ''.'' @ frac_digits 17 f))"

text \<open>A missing number prints as \<open>undefined\<close> inside a template literal.\<close>

definition opt_toString :: "number option \<Rightarrow> string" where
  "opt_toString v = (case v of None \<Rightarrow> ''undefined'' | Some x \<Rightarrow> Number_toString x)"

definition str_toString :: "string option \<Rightarrow> string" where
  "str_toString v = (case v of None \<Rightarrow> ''undefined'' | Some s \<Rightarrow> s)"

text \<open>\<open>x.toFixed(f)\<close>: the nearest multiple of \<open>10^-f\<close>, ties to the larger magnitude.\<close>

definition toFixed :: "number \<Rightarrow> nat \<Rightarrow> string" where
  "toFixed x f =
     (let n = nat \<lfloor>\<bar>x\<bar> * 10 ^ f + 1 / 2\<rfloor>;
          ip = string_of_nat (n div 10 ^ f);
          fp = string_of_nat (n mod 10 ^ f)
      in (if x < 0 then ''-'' else '''') @ ip @
         (if f = 0 then '''' else ''.'' @ replicate (f - length fp) (CHR ''0'') @ fp))"

text \<open>
  Truthiness. A string is truthy when it is present and not empty, a number when it is
  present and not zero. \<open>truthy\<close> keeps a truthy string and drops anything else, so
  \<open>if (x) use(x)\<close> reads \<open>case truthy x of Some s \<Rightarrow> use s | None \<Rightarrow> \<dots>\<close>;
  \<open>or_else x d\<close> is \<open>x || d\<close> on strings and \<open>num_or x d\<close> is \<open>x || d\<close> on numbers.
\<close>

definition truthy :: "string option \<Rightarrow> string option" where
  "truthy x = (case x of None \<Rightarrow> None | Some s \<Rightarrow> if s = [] then None else Some s)"

definition or_else :: "string option \<Rightarrow> string \<Rightarrow> string" where
  "or_else x d = (case truthy x of Some s \<Rightarrow> s | None \<Rightarrow> d)"

definition truthy_num :: "number option \<Rightarrow> number option" where
  "truthy_num x = (case x of None \<Rightarrow> None | Some v \<Rightarrow> if v = 0 then None else Some v)"

definition num_or :: "number option \<Rightarrow> number \<Rightarrow> number" where
  "num_or x d = (case truthy_num x of Some v \<Rightarrow> v | None \<Rightarrow> d)"

definition lookup_num :: "(number \<times> string) list \<Rightarrow> number option \<Rightarrow> string option" where
  "lookup_num tbl k = (case k of None \<Rightarrow> None | Some v \<Rightarrow> map_of tbl v)"

definition lookup_str :: "(string \<times> string) list \<Rightarrow> string option \<Rightarrow> string option" where
  "lookup_str tbl k = map_of tbl (str_toString k)"

text \<open>\<open>Array.prototype.join(' ')\<close>.\<close>

fun join_sp :: "string list \<Rightarrow> string" where
  "join_sp [] = ''''"
| "join_sp [x] = x"
| "join_sp (x # y # ys) = x @ '' '' @ join_sp (y # ys)"

section \<open>The design tree\<close>

text \<open>
  A node of the design file, with the fields \<open>extractNodeStructure\<close> reads to build
  the class string and the entry's identity. Field names carry a prefix (\<open>n_\<close> for the
  node, \<open>p_\<close> for a paint, \<open>e_\<close> for an effect, \<open>c_\<close> for a colour) since \<open>id\<close>, \<open>r\<close>,
  \<open>type\<close> are taken. An absent \<open>children\<close> array and an empty one are both the empty
  list: every reader tests \<open>node.children && node.children.length > 0\<close> or iterates.
\<close>

record rgba =
  c_r :: number
  c_g :: number
  c_b :: number
  c_a :: "number option"

record paint =
  p_type :: string
  p_visible :: "bool option"
  p_color :: "rgba option"
  p_opacity :: "number option"

record vector =
  v_x :: number
  v_y :: number

record effect =
  e_type :: string
  e_visible :: "bool option"
  e_offset :: vector
  e_radius :: number
  e_color :: rgba

record bounding_box =
  bb_width :: number
  bb_height :: number

record font_name =
  fn_family :: "string option"
  fn_style :: "string option"

text \<open>\<open>lineHeight\<close> and \<open>letterSpacing\<close>: a plain number, or an object with \<open>value\<close> and \<open>unit\<close>.\<close>

datatype dimension = DimNumber number | DimObject "number option" "string option"

record node_props =
  n_id :: "string option"
  n_name :: "string option"
  n_type :: "string option"
  n_visible :: "bool option"
  n_componentId :: "string option"
  n_componentSetId :: "string option"
  n_characters :: "string option"
  n_absoluteBoundingBox :: "bounding_box option"
  n_fills :: "paint list option"
  n_strokes :: "paint list option"
  n_strokeWeight :: "number option"
  n_layoutMode :: "string option"
  n_primaryAxisAlignItems :: "string option"
  n_counterAxisAlignItems :: "string option"
  n_itemSpacing :: "number option"
  n_paddingTop :: "number option"
  n_paddingRight :: "number option"
  n_paddingBottom :: "number option"
  n_paddingLeft :: "number option"
  n_cornerRadius :: "number option"
  n_rectangleCornerRadii :: "(number \<times> number \<times> number \<times> number) option"
  n_fontSize :: "number option"
  n_lineHeight :: "dimension option"
  n_letterSpacing :: "dimension option"
  n_fontName :: "font_name option"
  n_textAlignHorizontal :: "string option"
  n_opacity :: "number option"
  n_effects :: "effect list option"

datatype node = Node (props: node_props) (children: "node list")

section \<open>The style extractor: one definition per entry of the \<open>tailwind\<close> object\<close>

subsection \<open>Sizing\<close>

definition tw_width :: "node_props \<Rightarrow> string option" where
  "tw_width p = (case n_absoluteBoundingBox p of None \<Rightarrow> None
     | Some bb \<Rightarrow> Some (''w-['' @ int_toString (Math_round (bb_width bb)) @ ''px]''))"

definition tw_height :: "node_props \<Rightarrow> string option" where
  "tw_height p = (case n_absoluteBoundingBox p of None \<Rightarrow> None
     | Some bb \<Rightarrow> Some (''h-['' @ int_toString (Math_round (bb_height bb)) @ ''px]''))"

subsection \<open>Colours\<close>

text \<open>
  The source has the same colour block three times (fill, stroke, text fill); the copies
  differ in the table and in the leading word of the arbitrary-value token, which are the
  parameters of \<open>paint_token\<close>.
\<close>

definition commonColors :: "(string \<times> string) list" where
  "commonColors =
     [(''255 255 255'', ''bg-white''), (''0 0 0'', ''bg-black''),
      (''239 68 68'', ''bg-red-500''), (''34 197 94'', ''bg-green-500''),
      (''59 130 246'', ''bg-blue-500''), (''168 85 247'', ''bg-purple-500''),
      (''245 101 101'', ''bg-red-400''), (''156 163 175'', ''bg-gray-400'')]"

definition commonBorderColors :: "(string \<times> string) list" where
  "commonBorderColors =
     [(''255 255 255'', ''border-white''), (''0 0 0'', ''border-black''),
      (''229 231 235'', ''border-gray-200''), (''156 163 175'', ''border-gray-400''),
      (''75 85 99'', ''border-gray-600'')]"

definition commonTextColors :: "(string \<times> string) list" where
  "commonTextColors =
     [(''0 0 0'', ''text-black''), (''255 255 255'', ''text-white''),
      (''107 114 128'', ''text-gray-500''), (''75 85 99'', ''text-gray-600''),
      (''55 65 81'', ''text-gray-700''), (''31 41 55'', ''text-gray-800''),
      (''17 24 39'', ''text-gray-900'')]"

definition rgb_key :: "rgba \<Rightarrow> string" where
  "rgb_key c = int_toString (Math_round (c_r c * 255)) @ '' '' @
               int_toString (Math_round (c_g c * 255)) @ '' '' @
               int_toString (Math_round (c_b c * 255))"

definition solid_visible :: "paint \<Rightarrow> bool" where
  "solid_visible f = (p_type f = ''SOLID'' \<and> p_visible f \<noteq> Some False)"

definition paint_token :: "string \<Rightarrow> (string \<times> string) list \<Rightarrow> paint \<Rightarrow> string option" where
  "paint_token pre tbl f =
     (case p_color f of None \<Rightarrow> None
      | Some c \<Rightarrow>
          (let alpha = num_or (p_opacity f) 1; rgb = rgb_key c
           in if alpha = 1 \<and> truthy (map_of tbl rgb) \<noteq> None then map_of tbl rgb
              else if alpha < 1
                then Some (pre @ ''-[rgb('' @ rgb @ ''/'' @ Number_toString alpha @ '')]'')
              else Some (pre @ ''-[rgb('' @ rgb @ '')]'')))"

definition tw_backgroundColor :: "node_props \<Rightarrow> string option" where
  "tw_backgroundColor p =
     (case n_fills p of None \<Rightarrow> None
      | Some fills \<Rightarrow>
          if length fills > 0
          then (case find solid_visible fills of None \<Rightarrow> None
                | Some solidFill \<Rightarrow> paint_token ''bg'' commonColors solidFill)
          else None)"

definition borderWidthMap :: "(number \<times> string) list" where
  "borderWidthMap = [(1, ''border''), (2, ''border-2''), (4, ''border-4''), (8, ''border-8'')]"

definition tw_borderWidth :: "node_props \<Rightarrow> string option" where
  "tw_borderWidth p =
     (case n_strokes p of None \<Rightarrow> None
      | Some strokes \<Rightarrow>
          if length strokes > 0
          then (case truthy_num (n_strokeWeight p) of None \<Rightarrow> None
                | Some w \<Rightarrow> Some (or_else (map_of borderWidthMap w)
                                     (''border-['' @ Number_toString w @ ''px]'')))
          else None)"

definition tw_borderColor :: "node_props \<Rightarrow> string option" where
  "tw_borderColor p =
     (case n_strokes p of None \<Rightarrow> None
      | Some strokes \<Rightarrow>
          if length strokes > 0
          then (case find solid_visible strokes of None \<Rightarrow> None
                | Some solidStroke \<Rightarrow> paint_token ''border'' commonBorderColors solidStroke)
          else None)"

definition tw_textColor :: "node_props \<Rightarrow> string option" where
  "tw_textColor p =
     (case n_fills p of None \<Rightarrow> None
      | Some fills \<Rightarrow>
          if length fills > 0 \<and> n_type p = Some ''TEXT''
          then (case find solid_visible fills of None \<Rightarrow> None
                | Some textFill \<Rightarrow> paint_token ''text'' commonTextColors textFill)
          else None)"

subsection \<open>Layout\<close>

definition tw_flexDirection :: "node_props \<Rightarrow> string option" where
  "tw_flexDirection p =
     (case truthy (n_layoutMode p) of
        Some m \<Rightarrow> if m = ''VERTICAL'' then Some ''flex flex-col''
                  else if m = ''HORIZONTAL'' then Some ''flex flex-row''
                  else None
      | None \<Rightarrow> None)"

definition tw_display :: "node_props \<Rightarrow> string option" where
  "tw_display p =
     (case truthy (n_layoutMode p) of
        Some m \<Rightarrow> None
      | None \<Rightarrow> if n_type p = Some ''FRAME'' \<or> n_type p = Some ''GROUP''
                then Some ''block'' else None)"

definition alignMap :: "node_props \<Rightarrow> (string \<times> string) list" where
  "alignMap p =
     [(''MIN'', if n_layoutMode p = Some ''HORIZONTAL'' then ''justify-start'' else ''items-start''),
      (''CENTER'', if n_layoutMode p = Some ''HORIZONTAL'' then ''justify-center'' else ''items-center''),
      (''MAX'', if n_layoutMode p = Some ''HORIZONTAL'' then ''justify-end'' else ''items-end''),
      (''SPACE_BETWEEN'', ''justify-between'')]"

definition tw_primaryAlignment :: "node_props \<Rightarrow> string option" where
  "tw_primaryAlignment p =
     (case truthy (n_primaryAxisAlignItems p) of None \<Rightarrow> None
      | Some k \<Rightarrow> truthy (map_of (alignMap p) k))"

definition counterAlignMap :: "node_props \<Rightarrow> (string \<times> string) list" where
  "counterAlignMap p =
     [(''MIN'', if n_layoutMode p = Some ''HORIZONTAL'' then ''items-start'' else ''justify-start''),
      (''CENTER'', if n_layoutMode p = Some ''HORIZONTAL'' then ''items-center'' else ''justify-center''),
      (''MAX'', if n_layoutMode p = Some ''HORIZONTAL'' then ''items-end'' else ''justify-end'')]"

definition tw_counterAlignment :: "node_props \<Rightarrow> string option" where
  "tw_counterAlignment p =
     (case truthy (n_counterAxisAlignItems p) of None \<Rightarrow> None
      | Some k \<Rightarrow> truthy (map_of (counterAlignMap p) k))"

definition gapMap :: "(number \<times> string) list" where
  "gapMap =
     [(0, ''gap-0''), (1, ''gap-0.5''), (2, ''gap-0.5''), (4, ''gap-1''), (6, ''gap-1.5''),
      (8, ''gap-2''), (10, ''gap-2.5''), (12, ''gap-3''), (16, ''gap-4''), (20, ''gap-5''),
      (24, ''gap-6''), (32, ''gap-8'')]"

definition tw_gap :: "node_props \<Rightarrow> string option" where
  "tw_gap p =
     (case n_itemSpacing p of None \<Rightarrow> None
      | Some v \<Rightarrow> Some (or_else (map_of gapMap v) (''gap-['' @ Number_toString v @ ''px]'')))"

subsection \<open>Padding\<close>

definition spacingMap :: "(number \<times> string) list" where
  "spacingMap =
     [(0, ''0''), (1, ''0.5''), (2, ''0.5''), (4, ''1''), (6, ''1.5''), (8, ''2''), (10, ''2.5''),
      (12, ''3''), (14, ''3.5''), (16, ''4''), (20, ''5''), (24, ''6''), (28, ''7''), (32, ''8''),
      (36, ''9''), (40, ''10''), (44, ''11''), (48, ''12''), (56, ''14''), (64, ''16'')]"

text \<open>
  One side: \<open>spacingMap[v] ? `pt-${spacingMap[v]}` : `pt-[${v}px]`\<close>, with the side's
  word (\<open>p\<close>, \<open>pt\<close>, \<open>pr\<close>, \<open>pb\<close>, \<open>pl\<close>) as parameter.
\<close>

definition pad_side :: "string \<Rightarrow> number option \<Rightarrow> string" where
  "pad_side side v =
     (case truthy (lookup_num spacingMap v) of
        Some spacing \<Rightarrow> side @ ''-'' @ spacing
      | None \<Rightarrow> side @ ''-['' @ opt_toString v @ ''px]'')"

definition tw_padding :: "node_props \<Rightarrow> string option" where
  "tw_padding p =
     (case n_paddingLeft p of None \<Rightarrow> None
      | Some l \<Rightarrow>
          (let paddingTop = n_paddingTop p; paddingRight = n_paddingRight p;
               paddingBottom = n_paddingBottom p; paddingLeft = n_paddingLeft p
           in if paddingTop = paddingRight \<and> paddingRight = paddingBottom \<and>
                 paddingBottom = paddingLeft
              then Some (pad_side ''p'' paddingTop)
              else Some (pad_side ''pt'' paddingTop @ '' '' @ pad_side ''pr'' paddingRight @ '' '' @
                         pad_side ''pb'' paddingBottom @ '' '' @ pad_side ''pl'' paddingLeft)))"

subsection \<open>Corner radius\<close>

definition roundedMap :: "(number \<times> string) list" where
  "roundedMap =
     [(0, ''rounded-none''), (2, ''rounded-sm''), (4, ''rounded''), (6, ''rounded-md''),
      (8, ''rounded-lg''), (12, ''rounded-xl''), (16, ''rounded-2xl''), (24, ''rounded-3xl''),
      (9999, ''rounded-full'')]"

definition roundedMap4 :: "(number \<times> string) list" where
  "roundedMap4 =
     [(0, ''rounded-none''), (2, ''rounded-sm''), (4, ''rounded''), (6, ''rounded-md''),
      (8, ''rounded-lg''), (12, ''rounded-xl''), (16, ''rounded-2xl''), (24, ''rounded-3xl'')]"

text \<open>The four-corner block runs after the scalar one and overwrites its entry.\<close>

definition tw_borderRadius :: "node_props \<Rightarrow> string option" where
  "tw_borderRadius p =
     (let scalar = (case n_cornerRadius p of None \<Rightarrow> None
                    | Some cr \<Rightarrow> Some (or_else (map_of roundedMap cr)
                                          (''rounded-['' @ Number_toString cr @ ''px]'')))
      in case n_rectangleCornerRadii p of None \<Rightarrow> scalar
         | Some (r_tl, r_tr, r_br, r_bl) \<Rightarrow>
             if r_tl = r_tr \<and> r_tr = r_br \<and> r_br = r_bl
             then Some (or_else (map_of roundedMap4 r_tl)
                          (''rounded-['' @ Number_toString r_tl @ ''px]''))
             else Some (''[border-radius:'' @ Number_toString r_tl @ ''px_'' @
                        Number_toString r_tr @ ''px_'' @ Number_toString r_br @ ''px_'' @
                        Number_toString r_bl @ ''px]''))"

subsection \<open>Typography\<close>

definition tw_fontSize :: "node_props \<Rightarrow> string option" where
  "tw_fontSize p =
     (case truthy_num (n_fontSize p) of None \<Rightarrow> None
      | Some v \<Rightarrow> Some (''text-['' @ Number_toString v @ ''px]''))"

definition tw_lineHeight :: "node_props \<Rightarrow> string option" where
  "tw_lineHeight p =
     (case n_lineHeight p of
        Some (DimObject v u) \<Rightarrow>
          (case truthy_num v of None \<Rightarrow> None
           | Some x \<Rightarrow>
               if u = Some ''PIXELS'' then Some (''leading-['' @ Number_toString x @ ''px]'')
               else if u = Some ''PERCENT'' then Some (''leading-['' @ toFixed (x / 100) 1 @ '']'')
               else None)
      | _ \<Rightarrow> None)"

definition tw_letterSpacing :: "node_props \<Rightarrow> string option" where
  "tw_letterSpacing p =
     (case n_letterSpacing p of
        Some (DimObject v u) \<Rightarrow>
          (case truthy_num v of None \<Rightarrow> None
           | Some x \<Rightarrow>
               if u = Some ''PIXELS'' then Some (''tracking-['' @ Number_toString x @ ''px]'')
               else if u = Some ''PERCENT'' then Some (''tracking-['' @ toFixed (x / 100) 3 @ ''em]'')
               else None)
      | _ \<Rightarrow> None)"

definition fontMap :: "(string \<times> string) list" where
  "fontMap =
     [(''Inter'', ''font-inter''), (''Roboto'', ''font-roboto''),
      (''Arial'', ''font-sans''), (''Helvetica'', ''font-sans'')]"

definition tw_fontFamily :: "node_props \<Rightarrow> string option" where
  "tw_fontFamily p =
     (case n_fontName p of None \<Rightarrow> None
      | Some fn \<Rightarrow> Some (or_else (lookup_str fontMap (fn_family fn))
                           (''font-['' @ [CHR 0x27] @ str_toString (fn_family fn) @ [CHR 0x27] @ '']'')))"

definition weightMap :: "(string \<times> string) list" where
  "weightMap =
     [(''Regular'', ''font-normal''), (''Medium'', ''font-medium''),
      (''SemiBold'', ''font-semibold''), (''Bold'', ''font-bold''),
      (''Light'', ''font-light''), (''Thin'', ''font-thin'')]"

definition tw_fontWeight :: "node_props \<Rightarrow> string option" where
  "tw_fontWeight p =
     (case n_fontName p of None \<Rightarrow> None
      | Some fn \<Rightarrow>
          (case truthy (fn_style fn) of None \<Rightarrow> None
           | Some st \<Rightarrow> Some (or_else (map_of weightMap st) ''font-normal'')))"

definition textAlignMap :: "(string \<times> string) list" where
  "textAlignMap =
     [(''LEFT'', ''text-left''), (''CENTER'', ''text-center''),
      (''RIGHT'', ''text-right''), (''JUSTIFIED'', ''text-justify'')]"

definition tw_textAlign :: "node_props \<Rightarrow> string option" where
  "tw_textAlign p =
     (case truthy (n_textAlignHorizontal p) of None \<Rightarrow> None
      | Some k \<Rightarrow> Some (or_else (map_of textAlignMap k) ''text-left''))"

subsection \<open>Effects\<close>

definition tw_opacity :: "node_props \<Rightarrow> string option" where
  "tw_opacity p =
     (case n_opacity p of None \<Rightarrow> None
      | Some v \<Rightarrow> if v \<noteq> 1
                  then Some (''opacity-['' @ int_toString (Math_round (v * 100)) @ ''%]'')
                  else None)"

definition visible_shadow :: "effect \<Rightarrow> bool" where
  "visible_shadow e = (e_type e = ''DROP_SHADOW'' \<and> e_visible e = Some True)"

definition tw_shadow :: "node_props \<Rightarrow> string option" where
  "tw_shadow p =
     (case n_effects p of None \<Rightarrow> None
      | Some effects \<Rightarrow>
          if length effects > 0
          then (case find visible_shadow effects of None \<Rightarrow> None
                | Some dropShadow \<Rightarrow>
                    (let alpha = num_or (c_a (e_color dropShadow)) 1;
                         shadowColor = rgb_key (e_color dropShadow);
                         geom = Number_toString (v_x (e_offset dropShadow)) @ ''px_'' @
                                Number_toString (v_y (e_offset dropShadow)) @ ''px_'' @
                                Number_toString (e_radius dropShadow) @ ''px_rgb('' @ shadowColor
                     in if alpha < 1
                        then Some (''shadow-['' @ geom @ ''/'' @ Number_toString alpha @ '')]'')
                        else Some (''shadow-['' @ geom @ '')]'')))
          else None)"

subsection \<open>The class string\<close>

text \<open>
  \<open>if (tailwind.x) tailwindClasses.push(tailwind.x)\<close>, in the order of the source. The
  claimed precedence list names seventeen of these twenty-one entries.
\<close>

definition push :: "string option \<Rightarrow> string list" where
  "push t = (case truthy t of Some s \<Rightarrow> [s] | None \<Rightarrow> [])"

definition pushed :: "node_props \<Rightarrow> string list" where
  "pushed p =
     push (tw_display p) @ push (tw_flexDirection p) @ push (tw_primaryAlignment p) @
     push (tw_counterAlignment p) @ push (tw_gap p) @
     push (tw_width p) @ push (tw_height p) @
     push (tw_padding p) @
     push (tw_backgroundColor p) @
     push (tw_borderWidth p) @ push (tw_borderColor p) @ push (tw_borderRadius p) @
     push (tw_fontSize p) @ push (tw_fontFamily p) @ push (tw_fontWeight p) @
     push (tw_lineHeight p) @ push (tw_letterSpacing p) @ push (tw_textAlign p) @
     push (tw_textColor p) @
     push (tw_opacity p) @ push (tw_shadow p)"

definition default_class :: "string option \<Rightarrow> string" where
  "default_class ty =
     (if ty = Some ''TEXT'' then ''text-base''
      else if ty = Some ''FRAME'' \<or> ty = Some ''GROUP'' then ''block''
      else if ty = Some ''INSTANCE'' then ''block''
      else if ty = Some ''VECTOR'' \<or> ty = Some ''BOOLEAN_OPERATION'' then ''inline-block''
      else if ty = Some ''RECTANGLE'' \<or> ty = Some ''ELLIPSE'' then ''block''
      else ''block'')"

definition tailwindClassList :: "node_props \<Rightarrow> string list" where
  "tailwindClassList p =
     (if length (pushed p) = 0 then [default_class (n_type p)] else pushed p)"

definition tailwindClasses :: "node_props \<Rightarrow> string" where
  "tailwindClasses p = join_sp (tailwindClassList p)"

section \<open>The tree walk\<close>

text \<open>
  An entry of the output tree. The sub-objects the walk copies field by field from the
  node without computing on them (\<open>textContent\<close>, \<open>imageContent\<close>, \<open>vectorContent\<close>,
  \<open>componentProperties\<close>, \<open>textStyle\<close>) are left out; \<open>s_imageUrl\<close> is the field the image
  pass adds later.
\<close>

record entry =
  s_id :: "string option"
  s_name :: "string option"
  s_type :: "string option"
  s_depth :: nat
  s_visible :: "bool option"
  s_componentId :: "string option"
  s_componentSetId :: "string option"
  s_text :: "string option"
  s_tailwindClasses :: string
  s_childrenCount :: "nat option"
  s_imageUrl :: "string option"

datatype annotated = Structure (entry: entry) (s_children: "annotated list")

fun extractNodeStructure :: "node \<Rightarrow> nat \<Rightarrow> annotated" where
  "extractNodeStructure (Node p cs) depth =
     Structure
       \<lparr> s_id = n_id p, s_name = n_name p, s_type = n_type p, s_depth = depth,
         s_visible = n_visible p,
         s_componentId = truthy (n_componentId p),
         s_componentSetId = truthy (n_componentSetId p),
         s_text = truthy (n_characters p),
         s_tailwindClasses = tailwindClasses p,
         s_childrenCount = (if length cs > 0 then Some (length cs) else None),
         s_imageUrl = None \<rparr>
       (map (\<lambda>child. extractNodeStructure child (depth + 1)) cs)"

text \<open>Pre-order listings of the two trees: a node before its children, siblings in order.\<close>

fun nodes_of :: "node \<Rightarrow> node_props list" where
  "nodes_of (Node p cs) = p # concat (map nodes_of cs)"

fun entries_of :: "annotated \<Rightarrow> entry list" where
  "entries_of (Structure s cs) = s # concat (map entries_of cs)"

definition malformed :: "node_props \<Rightarrow> bool" where
  "malformed p = (n_id p = None \<or> n_type p = None)"

section \<open>Images and the report\<close>

text \<open>
  The two requests are the pipeline's inputs: each either rejects with an error or
  resolves to the parsed response. The node response maps ids to documents under
  \<open>nodes\<close>; the image response maps ids to a URL or \<open>null\<close> under \<open>images\<close>.
  \<open>console.warn\<close> output is returned as a list of messages.
\<close>

datatype error = Error string

datatype url = Null | Url string

type_synonym image_map = "string \<Rightarrow> url option"

type_synonym node_data = "(string \<Rightarrow> node option) option"

type_synonym image_request = "string option list \<Rightarrow> error + image_map option"

definition truthy_url :: "url option \<Rightarrow> string option" where
  "truthy_url u = (case u of Some (Url s) \<Rightarrow> if s = [] then None else Some s | _ \<Rightarrow> None)"

definition getImages :: "image_request \<Rightarrow> string option list \<Rightarrow> image_map \<times> string list" where
  "getImages request nodeIds =
     (case request nodeIds of
        Inr imageData \<Rightarrow> ((case imageData of Some images \<Rightarrow> images | None \<Rightarrow> Map.empty), [])
      | Inl (Error message) \<Rightarrow> (Map.empty, [''Could not fetch images: '' @ message]))"

definition has_image_fill :: "node_props \<Rightarrow> bool" where
  "has_image_fill p =
     (case n_fills p of None \<Rightarrow> False | Some fills \<Rightarrow> list_ex (\<lambda>fill. p_type fill = ''IMAGE'') fills)"

fun collectImageNodes :: "node \<Rightarrow> string option list \<Rightarrow> string option list" where
  "collectImageNodes (Node p cs) imageNodes =
     fold collectImageNodes cs (if has_image_fill p then imageNodes @ [n_id p] else imageNodes)"

fun addImageUrls :: "image_map \<Rightarrow> annotated \<Rightarrow> annotated" where
  "addImageUrls imageUrls (Structure s cs) =
     Structure
       (case truthy_url (imageUrls (str_toString (s_id s))) of
          Some u \<Rightarrow> s\<lparr>s_imageUrl := Some u\<rparr>
        | None \<Rightarrow> s)
       (map (addImageUrls imageUrls) cs)"

fun countAllChildren :: "annotated \<Rightarrow> nat" where
  "countAllChildren (Structure s cs) = length cs + sum_list (map countAllChildren cs)"

record instance_ref =
  i_id :: "string option"
  i_name :: "string option"
  i_componentId :: string

record component_ref =
  k_id :: "string option"
  k_name :: "string option"

fun analyzeComponents :: "annotated \<Rightarrow> instance_ref list \<times> component_ref list" where
  "analyzeComponents (Structure s cs) =
     (let instances =
            (if s_type s = Some ''INSTANCE''
             then (case truthy (s_componentId s) of
                     Some cid \<Rightarrow> [\<lparr>i_id = s_id s, i_name = s_name s, i_componentId = cid\<rparr>]
                   | None \<Rightarrow> [])
             else []);
          components =
            (if s_type s = Some ''COMPONENT'' then [\<lparr>k_id = s_id s, k_name = s_name s\<rparr>] else [])
      in (instances @ concat (map (\<lambda>child. fst (analyzeComponents child)) cs),
          components @ concat (map (\<lambda>child. snd (analyzeComponents child)) cs)))"

record component_analysis =
  instanceCount :: nat
  componentCount :: nat
  components :: "component_ref list"
  instances :: "instance_ref list"

record output_data =
  nodeId :: string
  nodeName :: "string option"
  nodeType :: "string option"
  directChildrenCount :: nat
  totalDescendants :: nat
  o_structure :: annotated
  extractedAt :: string
  componentAnalysis :: component_analysis

text \<open>
  \<open>getNodeStructure\<close> up to the document it writes. \<open>outputData\<close> is the object literal
  of that name together with the two counts it uses; \<open>now\<close> is what
  \<open>new Date().toISOString()\<close> returns. An error is what the outer \<open>catch\<close> receives, in
  which case no document is written.
\<close>

definition outputData :: "string \<Rightarrow> node \<Rightarrow> annotated \<Rightarrow> string \<Rightarrow> output_data" where
  "outputData NODE_ID node struct now =
     (let totalChildren = countAllChildren struct;
          analysis = analyzeComponents struct
      in \<lparr> nodeId = NODE_ID,
           nodeName = n_name (props node),
           nodeType = n_type (props node),
           directChildrenCount = length (s_children struct),
           totalDescendants = totalChildren,
           o_structure = struct,
           extractedAt = now,
           componentAnalysis =
             \<lparr> instanceCount = length (fst analysis),
               componentCount = length (snd analysis),
               components = snd analysis,
               instances = fst analysis \<rparr> \<rparr>)"

definition getNodeStructure ::
  "string \<Rightarrow> error + node_data \<Rightarrow> image_request \<Rightarrow> string \<Rightarrow> error + output_data" where
  "getNodeStructure NODE_ID nodeRequest imageRequest now =
     (case nodeRequest of
        Inl e \<Rightarrow> Inl e
      | Inr nodeData \<Rightarrow>
          (case (case nodeData of None \<Rightarrow> None | Some nodes \<Rightarrow> nodes NODE_ID) of
             None \<Rightarrow> Inl (Error (''Node with ID '' @ NODE_ID @ '' not found''))
           | Some node \<Rightarrow>
               (let extracted = extractNodeStructure node 0;
                    imageNodeIds = collectImageNodes node [];
                    imageUrls = (if length imageNodeIds > 0
                                 then fst (getImages imageRequest imageNodeIds) else Map.empty);
                    struct = (if length imageNodeIds > 0
                              then addImageUrls imageUrls extracted else extracted)
                in Inr (outputData NODE_ID node struct now))))"

section \<open>Sample inputs\<close>

text \<open>A node with no field set, from which the examples below are built by update.\<close>

definition bare :: node_props where
  "bare =
     \<lparr> n_id = None, n_name = None, n_type = None, n_visible = None, n_componentId = None,
       n_componentSetId = None, n_characters = None, n_absoluteBoundingBox = None,
       n_fills = None, n_strokes = None, n_strokeWeight = None, n_layoutMode = None,
       n_primaryAxisAlignItems = None, n_counterAxisAlignItems = None, n_itemSpacing = None,
       n_paddingTop = None, n_paddingRight = None, n_paddingBottom = None,
       n_paddingLeft = None, n_cornerRadius = None, n_rectangleCornerRadii = None,
       n_fontSize = None, n_lineHeight = None, n_letterSpacing = None, n_fontName = None,
       n_textAlignHorizontal = None, n_opacity = None, n_effects = None \<rparr>"

definition solid :: "number \<Rightarrow> number \<Rightarrow> number \<Rightarrow> number option \<Rightarrow> paint" where
  "solid r g b opacity =
     \<lparr> p_type = ''SOLID'', p_visible = None,
       p_color = Some \<lparr> c_r = r, c_g = g, c_b = b, c_a = None \<rparr>, p_opacity = opacity \<rparr>"

definition sample :: node_props where
  "sample = bare\<lparr>n_type := Some ''FRAME'', n_layoutMode := Some ''HORIZONTAL'',
     n_primaryAxisAlignItems := Some ''CENTER'', n_counterAxisAlignItems := Some ''MIN'',
     n_itemSpacing := Some 8,
     n_absoluteBoundingBox := Some \<lparr>bb_width = 320.5, bb_height = 47.4\<rparr>,
     n_paddingTop := Some 4, n_paddingRight := Some 7, n_paddingBottom := Some 4, n_paddingLeft := Some 7,
     n_fills := Some [solid 1 1 1 None], n_strokes := Some [solid 0 0 0 None], n_strokeWeight := Some 1,
     n_cornerRadius := Some 8, n_fontSize := Some 24,
     n_fontName := Some \<lparr>fn_family = Some ''Inter'', fn_style = Some ''Bold''\<rparr>,
     n_lineHeight := Some (DimObject (Some 32) (Some ''PIXELS'')),
     n_textAlignHorizontal := Some ''CENTER'', n_opacity := Some 0.5,
     n_effects := Some [\<lparr>e_type = ''DROP_SHADOW'', e_visible = Some True,
         e_offset = \<lparr>v_x = 0, v_y = 4\<rparr>, e_radius = 6,
         e_color = \<lparr>c_r = 0, c_g = 0, c_b = 0, c_a = Some 0.25\<rparr>\<rparr>]\<rparr>"

definition broken_tree :: node where
  "broken_tree =
     Node (bare\<lparr>n_id := Some ''1:1'', n_type := Some ''FRAME''\<rparr>)
       [Node (bare\<lparr>n_type := Some ''TEXT''\<rparr>) [],
        Node (bare\<lparr>n_id := Some ''1:3'', n_type := Some ''RECTANGLE''\<rparr>) []]"

definition image_tree :: node where
  "image_tree =
     Node (bare\<lparr>n_id := Some ''1:1'', n_name := Some ''Card'', n_type := Some ''FRAME'',
                n_layoutMode := Some ''VERTICAL'',
                n_paddingTop := Some 16, n_paddingRight := Some 16,
                n_paddingBottom := Some 16, n_paddingLeft := Some 16,
                n_fills := Some [solid 1 1 1 None]\<rparr>)
       [Node (bare\<lparr>n_id := Some ''1:2'', n_name := Some ''Title'', n_type := Some ''TEXT'',
                   n_characters := Some ''Hi'', n_fontSize := Some 24\<rparr>) [],
        Node (bare\<lparr>n_id := Some ''1:3'', n_name := Some ''Photo'', n_type := Some ''RECTANGLE'',
                   n_fills := Some [\<lparr>p_type = ''IMAGE'', p_visible = None, p_color = None,
                                     p_opacity = None\<rparr>]\<rparr>) [],
        Node (bare\<lparr>n_id := Some ''1:4'', n_name := Some ''Button'', n_type := Some ''INSTANCE'',
                   n_componentId := Some ''9:9''\<rparr>)
          [Node (bare\<lparr>n_id := Some ''1:5'', n_name := Some ''Icon'', n_type := Some ''VECTOR''\<rparr>) []],
        Node (bare\<lparr>n_id := Some ''1:6'', n_name := Some ''Badge'', n_type := Some ''COMPONENT''\<rparr>) []]"

section \<open>Reading a class string\<close>

text \<open>
  \<open>split_sp\<close> splits a string at its spaces, as \<open>String.prototype.split(' ')\<close> does. It
  is not part of the program: the claims use it to count the tokens of a class string.
\<close>

fun split_sp :: "string \<Rightarrow> string list" where
  "split_sp [] = [[]]"
| "split_sp (c # cs) =
     (if c = CHR '' '' then [] # split_sp cs
      else (case split_sp cs of [] \<Rightarrow> [[c]] | w # ws \<Rightarrow> (c # w) # ws))"

section \<open>Auxiliary facts\<close>

lemma spacingMap_truthy: "map_of spacingMap v = Some t \<Longrightarrow> t \<noteq> []"
  by (auto simp: spacingMap_def split: if_splits)

lemma commonColors_truthy: "map_of commonColors k = Some t \<Longrightarrow> t \<noteq> []"
  by (auto simp: commonColors_def split: if_splits)

lemma commonBorderColors_truthy: "map_of commonBorderColors k = Some t \<Longrightarrow> t \<noteq> []"
  by (auto simp: commonBorderColors_def split: if_splits)

lemma find_Some_nonempty: "find P xs = Some x \<Longrightarrow> 0 < length xs"
  by (cases xs) auto

lemma paint_token_zero_opacity:
  assumes "p_opacity f = Some 0" and "p_color f = Some c"
    and tbl: "\<And>k t. map_of tbl k = Some t \<Longrightarrow> t \<noteq> []"
  shows "paint_token pre tbl f =
           Some (case map_of tbl (rgb_key c) of
                   Some name \<Rightarrow> name
                 | None \<Rightarrow> pre @ ''-[rgb('' @ rgb_key c @ '')]'')"
proof (cases "map_of tbl (rgb_key c)")
  case None
  then show ?thesis
    using assms(1,2) by (simp add: paint_token_def num_or_def truthy_num_def truthy_def)
next
  case (Some t)
  with tbl have "t \<noteq> []" by blast
  with Some show ?thesis
    using assms(1,2) by (simp add: paint_token_def num_or_def truthy_num_def truthy_def)
qed

lemma split_sp_word: "CHR '' '' \<notin> set a \<Longrightarrow> split_sp a = [a]"
  by (induction a) auto

lemma split_sp_append:
  "CHR '' '' \<notin> set a \<Longrightarrow> split_sp (a @ CHR '' '' # rest) = a # split_sp rest"
  by (induction a) auto

lemma digit_in: "n < 10 \<Longrightarrow> ''0123456789'' ! n \<in> set ''0123456789''"
  by (rule nth_mem) simp

lemma string_of_nat_digits: "set (string_of_nat n) \<subseteq> set ''0123456789''"
proof (induction n rule: string_of_nat.induct)
  case (1 n)
  show ?case
  proof (cases "n < 10")
    case True
    then show ?thesis
      using digit_in [of n] by (subst string_of_nat.simps) simp
  next
    case False
    have "n mod 10 < 10" by simp
    then have "''0123456789'' ! (n mod 10) \<in> set ''0123456789''" by (rule digit_in)
    with False "1.IH" show ?thesis
      by (subst string_of_nat.simps) simp
  qed
qed

lemma frac_digits_digits:
  "0 \<le> x \<Longrightarrow> x < 1 \<Longrightarrow> set (frac_digits k x) \<subseteq> set ''0123456789''"
proof (induction k arbitrary: x)
  case 0
  then show ?case by simp
next
  case (Suc k)
  define d where "d = \<lfloor>x * 10\<rfloor>"
  have "0 \<le> x * 10" and "x * 10 < 10" using Suc.prems by simp_all
  then have d0: "0 \<le> d" and d9: "d < 10"
    unfolding d_def by (simp_all add: floor_less_iff)
  have "nat d < 10" using d0 d9 by linarith
  then have dig: "''0123456789'' ! nat d \<in> set ''0123456789''" by (rule digit_in)
  have r0: "0 \<le> x * 10 - of_int d" unfolding d_def by (simp add: of_int_floor_le)
  have r1: "x * 10 - of_int d < 1" unfolding d_def by linarith
  have "set (frac_digits k (x * 10 - of_int d)) \<subseteq> set ''0123456789''"
    using r0 r1 by (rule Suc.IH)
  with dig show ?case unfolding d_def by simp
qed

lemma no_space_digits: "CHR '' '' \<notin> set ''0123456789''"
  by simp

lemma string_of_nat_no_space: "CHR '' '' \<notin> set (string_of_nat n)"
  using string_of_nat_digits [of n] no_space_digits by blast

lemma frac_digits_no_space: "0 \<le> x \<Longrightarrow> x < 1 \<Longrightarrow> CHR '' '' \<notin> set (frac_digits k x)"
  using frac_digits_digits [of x k] no_space_digits by blast

lemma Number_toString_no_space: "CHR '' '' \<notin> set (Number_toString x)"
proof -
  define f where "f = \<bar>x\<bar> - of_int \<lfloor>\<bar>x\<bar>\<rfloor>"
  have "0 \<le> f" unfolding f_def by (simp add: of_int_floor_le)
  moreover have "f < 1" unfolding f_def by linarith
  ultimately have fr: "CHR '' '' \<notin> set (frac_digits 17 f)"
    by (rule frac_digits_no_space)
  have "Number_toString x =
          (if x < 0 then ''-'' else []) @ string_of_nat (nat \<lfloor>\<bar>x\<bar>\<rfloor>) @
          (if f = 0 then [] else ''.'' @ frac_digits 17 f)"
    unfolding Number_toString_def Let_def f_def ..
  then show ?thesis
    using fr string_of_nat_no_space [of "nat \<lfloor>\<bar>x\<bar>\<rfloor>"] by simp
qed

lemma spacingMap_no_space: "map_of spacingMap v = Some t \<Longrightarrow> CHR '' '' \<notin> set t"
  by (auto simp: spacingMap_def split: if_splits)

lemma pad_side_Some:
  "pad_side side (Some v) =
     (case map_of spacingMap v of
        Some t \<Rightarrow> side @ ''-'' @ t
      | None \<Rightarrow> side @ ''-['' @ Number_toString v @ ''px]'')"
  using spacingMap_truthy [of v]
  by (auto simp: pad_side_def lookup_num_def opt_toString_def truthy_def split: option.splits)

lemma pad_side_no_space:
  "CHR '' '' \<notin> set side \<Longrightarrow> CHR '' '' \<notin> set (pad_side side (Some v))"
  using spacingMap_no_space [of v] Number_toString_no_space [of v]
  by (auto simp: pad_side_Some split: option.splits)

lemma push_nonempty: "s \<in> set (push t) \<Longrightarrow> s \<noteq> []"
  by (auto simp: push_def truthy_def split: option.splits if_splits)

lemma pushed_nonempty: "s \<in> set (pushed p) \<Longrightarrow> s \<noteq> []"
  unfolding pushed_def set_append Un_iff using push_nonempty by blast

lemma default_class_nonempty: "default_class ty \<noteq> []"
  by (simp add: default_class_def)

lemma tailwindClassList_nonempty:
  "tailwindClassList p \<noteq> []" "s \<in> set (tailwindClassList p) \<Longrightarrow> s \<noteq> []"
  using pushed_nonempty [of s p] default_class_nonempty [of "n_type p"]
  by (auto simp: tailwindClassList_def split: if_splits)

lemma join_sp_nonempty: "xs \<noteq> [] \<Longrightarrow> hd xs \<noteq> [] \<Longrightarrow> join_sp xs \<noteq> []"
  by (induction xs rule: join_sp.induct) auto

lemma tailwindClasses_nonempty: "tailwindClasses p \<noteq> []"
proof -
  have ne: "tailwindClassList p \<noteq> []" by (rule tailwindClassList_nonempty)
  then have "hd (tailwindClassList p) \<in> set (tailwindClassList p)" by simp
  then have "hd (tailwindClassList p) \<noteq> []" by (rule tailwindClassList_nonempty)
  with ne show ?thesis unfolding tailwindClasses_def by (rule join_sp_nonempty)
qed

lemma entries_extract_classes:
  "e \<in> set (entries_of (extractNodeStructure n d)) \<Longrightarrow>
     \<exists>p \<in> set (nodes_of n). s_tailwindClasses e = tailwindClasses p \<and> s_type e = n_type p"
proof (induction n d arbitrary: e rule: extractNodeStructure.induct)
  case (1 p cs depth)
  from "1.prems" consider "e = entry (extractNodeStructure (Node p cs) depth)"
    | c where "c \<in> set cs" "e \<in> set (entries_of (extractNodeStructure c (depth + 1)))"
    by auto
  then show ?case
  proof cases
    case 1
    then show ?thesis by simp
  next
    case 2
    with "1.IH" obtain q where "q \<in> set (nodes_of c)"
      "s_tailwindClasses e = tailwindClasses q \<and> s_type e = n_type q"
      by blast
    with 2 show ?thesis by auto
  qed
qed

lemma Math_round_nearest: "\<bar>of_int (Math_round x) - x\<bar> \<le> 1 / 2"
  unfolding Math_round_def by linarith

lemma subseq_skip: "subseq xs ys \<Longrightarrow> subseq xs (zs @ ys)"
  by (rule list_emb_append2)

lemma subseq_both: "subseq xs ys \<Longrightarrow> subseq (zs @ xs) (zs @ ys)"
  by (simp add: subseq_append')

lemma claimed_order_in_pushed:
  "subseq
     (push (tw_display p) @ push (tw_flexDirection p) @ push (tw_primaryAlignment p) @
      push (tw_counterAlignment p) @ push (tw_gap p) @
      push (tw_width p) @ push (tw_height p) @ push (tw_padding p) @
      push (tw_backgroundColor p) @ push (tw_borderWidth p) @ push (tw_borderColor p) @
      push (tw_borderRadius p) @ push (tw_fontSize p) @ push (tw_fontFamily p) @
      push (tw_fontWeight p) @ push (tw_textAlign p) @ push (tw_opacity p) @
      push (tw_shadow p))
     (pushed p)"
  unfolding pushed_def
  by (intro subseq_both subseq_skip subseq_order.refl)

lemma map_concat_cong:
  "(\<And>x. x \<in> set xs \<Longrightarrow> map f (g x) = h x) \<Longrightarrow> map f (concat (map g xs)) = concat (map h xs)"
  by (induction xs) auto

lemma extract_ids: "map s_id (entries_of (extractNodeStructure n d)) = map n_id (nodes_of n)"
  by (induction n d rule: extractNodeStructure.induct) (simp add: map_concat_cong comp_def)

lemma extract_types: "map s_type (entries_of (extractNodeStructure n d)) = map n_type (nodes_of n)"
  by (induction n d rule: extractNodeStructure.induct) (simp add: map_concat_cong comp_def)

lemma extract_children:
  "s_children (extractNodeStructure n d) = map (\<lambda>child. extractNodeStructure child (d + 1)) (children n)"
  by (cases n) simp

lemma truthy_url_None: "truthy_url None = None"
  by (simp add: truthy_url_def)

lemma addImageUrls_empty: "addImageUrls Map.empty s = s"
  by (induction s) (simp add: truthy_url_None map_idI)

lemma extract_imageUrl:
  "map s_imageUrl (entries_of (extractNodeStructure n d)) = map (\<lambda>p. None) (nodes_of n)"
  by (induction n d rule: extractNodeStructure.induct) (simp add: map_concat_cong comp_def)

lemma addImageUrls_rest:
  "map (\<lambda>e. e\<lparr>s_imageUrl := None\<rparr>) (entries_of (addImageUrls images s)) =
     map (\<lambda>e. e\<lparr>s_imageUrl := None\<rparr>) (entries_of s)"
  by (induction s) (auto simp: map_concat_cong comp_def split: option.splits)

lemma getImages_failure:
  "request ids = Inl err \<Longrightarrow>
     fst (getImages request ids) = Map.empty \<and> length (snd (getImages request ids)) = 1"
  by (cases err) (simp add: getImages_def)

lemma getNodeStructure_found:
  assumes "nodeRequest = Inr (Some nodes)" and "nodes NODE_ID = Some node"
  shows "getNodeStructure NODE_ID nodeRequest imageRequest now =
           Inr (outputData NODE_ID node
                  (if collectImageNodes node [] = [] then extractNodeStructure node 0
                   else addImageUrls (fst (getImages imageRequest (collectImageNodes node [])))
                          (extractNodeStructure node 0))
                  now)"
  using assms by (simp add: getNodeStructure_def Let_def)

lemma extract_addImageUrls_urls:
  "map s_imageUrl (entries_of (addImageUrls images (extractNodeStructure n d))) =
     map (\<lambda>p. truthy_url (images (str_toString (n_id p)))) (nodes_of n)"
  by (induction n d rule: extractNodeStructure.induct)
     (auto simp: map_concat_cong comp_def split: option.splits)

lemma extract_clear_imageUrl:
  "map (\<lambda>e. e\<lparr>s_imageUrl := None\<rparr>) (entries_of (extractNodeStructure n d)) =
     entries_of (extractNodeStructure n d)"
  by (induction n d rule: extractNodeStructure.induct)
     (simp add: map_concat_cong comp_def map_idI)

lemma extract_classes:
  "map s_tailwindClasses (entries_of (extractNodeStructure n d)) = map tailwindClasses (nodes_of n)"
  by (induction n d rule: extractNodeStructure.induct) (simp add: map_concat_cong comp_def)

lemma split_sp_ne: "split_sp a \<noteq> []"
  by (induction a) (auto split: list.splits)

lemma split_sp_app: "split_sp (a @ CHR '' '' # b) = split_sp a @ split_sp b"
proof (induction a)
  case Nil
  then show ?case by simp
next
  case (Cons c a)
  obtain w ws where "split_sp a = w # ws"
    using split_sp_ne [of a] by (cases "split_sp a") auto
  with Cons show ?case by simp
qed

lemma split_sp_join_sp: "xs \<noteq> [] \<Longrightarrow> split_sp (join_sp xs) = concat (map split_sp xs)"
  by (induction xs rule: join_sp.induct) (simp_all add: split_sp_app)

lemma subseq_concat_map: "subseq xs ys \<Longrightarrow> subseq (concat (map f xs)) (concat (map f ys))"
  by (induction rule: list_emb.induct) (auto intro: list_emb_append2 list_emb_append_mono)

lemma truthy_truthy: "truthy (truthy x) = truthy x"
  by (cases x) (simp_all add: truthy_def)

lemma sum_list_Suc:
  "(\<And>x. x \<in> set xs \<Longrightarrow> Suc (f x) = g x) \<Longrightarrow>
     length xs + sum_list (map f xs) = sum_list (map g xs)"
  by (induction xs) (simp_all, force)

lemma countAllChildren_entries: "Suc (countAllChildren s) = length (entries_of s)"
proof (induction s)
  case (Structure e cs)
  have "length cs + sum_list (map countAllChildren cs) =
          sum_list (map (\<lambda>c. length (entries_of c)) cs)"
    using Structure by (rule sum_list_Suc)
  then show ?case by (simp add: length_concat comp_def)
qed

lemma extract_analyze:
  "analyzeComponents (addImageUrls images (extractNodeStructure n d)) =
     (concat (map (\<lambda>p. if n_type p = Some ''INSTANCE''
                            then (case truthy (n_componentId p) of
                                    Some cid \<Rightarrow> [\<lparr>i_id = n_id p, i_name = n_name p,
                                                  i_componentId = cid\<rparr>]
                                  | None \<Rightarrow> [])
                            else []) (nodes_of n)),
      concat (map (\<lambda>p. if n_type p = Some ''COMPONENT''
                            then [\<lparr>k_id = n_id p, k_name = n_name p\<rparr>] else [])
                  (nodes_of n)))"
proof (induction n d rule: extractNodeStructure.induct)
  case (1 p cs depth)
  have f: "concat (map (\<lambda>child. fst (analyzeComponents (addImageUrls images
                (extractNodeStructure child (depth + 1))))) cs) =
           concat (map (\<lambda>p. if n_type p = Some ''INSTANCE''
                            then (case truthy (n_componentId p) of
                                    Some cid \<Rightarrow> [\<lparr>i_id = n_id p, i_name = n_name p,
                                                  i_componentId = cid\<rparr>]
                                  | None \<Rightarrow> [])
                            else []) (concat (map nodes_of cs)))"
    using "1.IH" by (induction cs) simp_all
  have g: "concat (map (\<lambda>child. snd (analyzeComponents (addImageUrls images
                (extractNodeStructure child (depth + 1))))) cs) =
           concat (map (\<lambda>p. if n_type p = Some ''COMPONENT''
                            then [\<lparr>k_id = n_id p, k_name = n_name p\<rparr>] else [])
                  (concat (map nodes_of cs)))"
    using "1.IH" by (induction cs) simp_all
  show ?case
    using f g by (simp add: comp_def truthy_truthy split: option.splits)
qed

lemma addImageUrls_children: "length (s_children (addImageUrls images s)) = length (s_children s)"
  by (cases s) simp

lemma addImageUrls_entries_length:
  "length (entries_of (addImageUrls images s)) = length (entries_of s)"
proof -
  have "length (map (\<lambda>e. e\<lparr>s_imageUrl := None\<rparr>) (entries_of (addImageUrls images s))) =
        length (map (\<lambda>e. e\<lparr>s_imageUrl := None\<rparr>) (entries_of s))"
    by (simp only: addImageUrls_rest)
  then show ?thesis by simp
qed

lemma length_instances:
  "length (concat (map (\<lambda>p. if n_type p = Some ''INSTANCE''
                            then (case truthy (n_componentId p) of
                                    Some cid \<Rightarrow> [\<lparr>i_id = n_id p, i_name = n_name p,
                                                  i_componentId = cid\<rparr>]
                                  | None \<Rightarrow> [])
                            else []) ps)) =
   length (filter (\<lambda>p. n_type p = Some ''INSTANCE'' \<and> truthy (n_componentId p) \<noteq> None) ps)"
  by (induction ps) (auto split: option.splits)

lemma length_components:
  "length (concat (map (\<lambda>p. if n_type p = Some ''COMPONENT''
                            then [\<lparr>k_id = n_id p, k_name = n_name p\<rparr>] else []) ps)) =
   length (filter (\<lambda>p. n_type p = Some ''COMPONENT'') ps)"
  by (induction ps) auto

lemma extract_entries_length:
  "length (entries_of (extractNodeStructure n d)) = length (nodes_of n)"
proof -
  have "length (map s_id (entries_of (extractNodeStructure n d))) = length (map n_id (nodes_of n))"
    by (simp only: extract_ids)
  then show ?thesis by simp
qed

lemma countAllChildren_extract:
  "countAllChildren (addImageUrls images (extractNodeStructure n d)) = length (nodes_of n) - 1"
proof -
  have "Suc (countAllChildren (addImageUrls images (extractNodeStructure n d))) =
          length (nodes_of n)"
    by (simp only: countAllChildren_entries addImageUrls_entries_length extract_entries_length)
  then show ?thesis by simp
qed

lemma outputData_extract:
  "outputData NODE_ID node (addImageUrls images (extractNodeStructure node 0)) now =
     \<lparr> nodeId = NODE_ID,
       nodeName = n_name (props node),
       nodeType = n_type (props node),
       directChildrenCount = length (children node),
       totalDescendants = length (nodes_of node) - 1,
       o_structure = addImageUrls images (extractNodeStructure node 0),
       extractedAt = now,
       componentAnalysis =
         \<lparr> instanceCount =
             length (filter (\<lambda>p. n_type p = Some ''INSTANCE'' \<and> truthy (n_componentId p) \<noteq> None)
                       (nodes_of node)),
           componentCount = length (filter (\<lambda>p. n_type p = Some ''COMPONENT'') (nodes_of node)),
           components =
             concat (map (\<lambda>p. if n_type p = Some ''COMPONENT''
                                then [\<lparr>k_id = n_id p, k_name = n_name p\<rparr>] else [])
                      (nodes_of node)),
           instances =
             concat (map (\<lambda>p. if n_type p = Some ''INSTANCE''
                                then (case truthy (n_componentId p) of
                                        Some cid \<Rightarrow> [\<lparr>i_id = n_id p, i_name = n_name p,
                                                      i_componentId = cid\<rparr>]
                                      | None \<Rightarrow> [])
                                else []) (nodes_of node)) \<rparr> \<rparr>"
proof -
  have ch: "length (s_children (addImageUrls images (extractNodeStructure node 0))) =
              length (children node)"
    by (simp add: addImageUrls_children extract_children)
  show ?thesis
    unfolding outputData_def Let_def
    by (simp only: ch countAllChildren_extract extract_analyze fst_conv snd_conv
        length_instances length_components)
qed

lemma claimed_in_classList:
  "subseq
     (push (tw_display p) @ push (tw_flexDirection p) @ push (tw_primaryAlignment p) @
      push (tw_counterAlignment p) @ push (tw_gap p) @
      push (tw_width p) @ push (tw_height p) @ push (tw_padding p) @
      push (tw_backgroundColor p) @ push (tw_borderWidth p) @ push (tw_borderColor p) @
      push (tw_borderRadius p) @ push (tw_fontSize p) @ push (tw_fontFamily p) @
      push (tw_fontWeight p) @ push (tw_textAlign p) @ push (tw_opacity p) @
      push (tw_shadow p))
     (tailwindClassList p)"
proof (cases "pushed p = []")
  case True
  let ?claimed = "push (tw_display p) @ push (tw_flexDirection p) @ push (tw_primaryAlignment p) @
    push (tw_counterAlignment p) @ push (tw_gap p) @
    push (tw_width p) @ push (tw_height p) @ push (tw_padding p) @
    push (tw_backgroundColor p) @ push (tw_borderWidth p) @ push (tw_borderColor p) @
    push (tw_borderRadius p) @ push (tw_fontSize p) @ push (tw_fontFamily p) @
    push (tw_fontWeight p) @ push (tw_textAlign p) @ push (tw_opacity p) @
    push (tw_shadow p)"
  have "subseq ?claimed (pushed p)" by (rule claimed_order_in_pushed)
  then have "subseq ?claimed ([default_class (n_type p)] @ pushed p)"
    by (rule subseq_skip)
  moreover have "tailwindClassList p = [default_class (n_type p)] @ pushed p"
    using True by (simp add: tailwindClassList_def)
  ultimately show ?thesis by (simp only:)
next
  case False
  with claimed_order_in_pushed [of p] show ?thesis by (simp add: tailwindClassList_def)
qed

section \<open>Claims\<close>

text \<open>
  C1 (as stated, refuted). The walk does not look at whether a node has an \<open>id\<close> or a
  \<open>type\<close>. A tree of three nodes, one of them without \<open>id\<close>, gives three entries (not
  two); the entry of the malformed node is there, with no \<open>id\<close>.
\<close>

theorem C1_counterexample:
  "length (nodes_of broken_tree) = 3 \<and>
   length (filter malformed (nodes_of broken_tree)) = 1 \<and>
   length (entries_of (extractNodeStructure broken_tree 0)) = 3 \<and>
   length (entries_of (extractNodeStructure broken_tree 0)) \<noteq> length (nodes_of broken_tree) - 1 \<and>
   map s_id (entries_of (extractNodeStructure broken_tree 0)) = [Some ''1:1'', None, Some ''1:3'']"
  by code_simp

text \<open>
  C1 (amended). For every input tree, whether or not its nodes carry \<open>id\<close> and \<open>type\<close>,
  the walk gives exactly one entry per node: the pre-order listing of the output has the
  length of the pre-order listing of the input and the same ids and types in the same
  order (a node before its children, siblings in their order), and the children of an
  entry are the walks of the node's children, one level deeper.
\<close>

theorem C1_one_entry_per_node:
  "length (entries_of (extractNodeStructure n d)) = length (nodes_of n) \<and>
   map s_id (entries_of (extractNodeStructure n d)) = map n_id (nodes_of n) \<and>
   map s_type (entries_of (extractNodeStructure n d)) = map n_type (nodes_of n) \<and>
   s_children (extractNodeStructure n d) =
     map (\<lambda>child. extractNodeStructure child (d + 1)) (children n)"
proof -
  have "length (map s_id (entries_of (extractNodeStructure n d))) = length (map n_id (nodes_of n))"
    by (simp only: extract_ids)
  then have "length (entries_of (extractNodeStructure n d)) = length (nodes_of n)"
    by simp
  then show ?thesis
    using extract_ids extract_types extract_children by blast
qed

text \<open>
  C2 (as stated, refuted). The claim takes one spacing table with the keys
  0, 1, 2, 4, 6, 8, 10, 12, 16, 20, 24, 28, 32, 36, 40, 44, 48, 56, 64 for both gap and
  padding. The gap table has no key 28, so a gap of 28 gets the arbitrary-value token;
  the padding table has the further key 14, so a padding of 14 gets a named token.
\<close>

theorem C2_counterexample:
  "tw_gap (bare\<lparr>n_itemSpacing := Some 28\<rparr>) = Some ''gap-[28px]'' \<and>
   tw_padding (bare\<lparr>n_paddingTop := Some 14, n_paddingRight := Some 14,
                     n_paddingBottom := Some 14, n_paddingLeft := Some 14\<rparr>) = Some ''p-3.5''"
  by code_simp

text \<open>
  C2 (amended). Each mapping snaps on the keys of its own table: the gap value \<open>v\<close> gets
  its named token exactly for \<open>v\<close> in 0, 1, 2, 4, 6, 8, 10, 12, 16, 20, 24, 32, and four
  equal padding sides \<open>w\<close> get theirs exactly for \<open>w\<close> in 0, 1, 2, 4, 6, 8, 10, 12, 14, 16,
  20, 24, 28, 32, 36, 40, 44, 48, 56, 64; every other value gets the arbitrary-value
  token that embeds the number followed by \<open>px\<close>.
\<close>

theorem C2_snap_own_tables:
  "(n_itemSpacing p = Some v \<longrightarrow>
      tw_gap p =
        Some (if v = 0 then ''gap-0''
              else if v = 1 then ''gap-0.5''
              else if v = 2 then ''gap-0.5''
              else if v = 4 then ''gap-1''
              else if v = 6 then ''gap-1.5''
              else if v = 8 then ''gap-2''
              else if v = 10 then ''gap-2.5''
              else if v = 12 then ''gap-3''
              else if v = 16 then ''gap-4''
              else if v = 20 then ''gap-5''
              else if v = 24 then ''gap-6''
              else if v = 32 then ''gap-8''
              else ''gap-['' @ Number_toString v @ ''px]'')) \<and>
   (n_paddingTop q = Some w \<and> n_paddingRight q = Some w \<and>
    n_paddingBottom q = Some w \<and> n_paddingLeft q = Some w \<longrightarrow>
      tw_padding q =
        Some (if w = 0 then ''p-0''
              else if w = 1 then ''p-0.5''
              else if w = 2 then ''p-0.5''
              else if w = 4 then ''p-1''
              else if w = 6 then ''p-1.5''
              else if w = 8 then ''p-2''
              else if w = 10 then ''p-2.5''
              else if w = 12 then ''p-3''
              else if w = 14 then ''p-3.5''
              else if w = 16 then ''p-4''
              else if w = 20 then ''p-5''
              else if w = 24 then ''p-6''
              else if w = 28 then ''p-7''
              else if w = 32 then ''p-8''
              else if w = 36 then ''p-9''
              else if w = 40 then ''p-10''
              else if w = 44 then ''p-11''
              else if w = 48 then ''p-12''
              else if w = 56 then ''p-14''
              else if w = 64 then ''p-16''
              else ''p-['' @ Number_toString w @ ''px]''))"
proof (intro conjI impI)
  assume "n_itemSpacing p = Some v"
  then show "tw_gap p =
        Some (if v = 0 then ''gap-0''
              else if v = 1 then ''gap-0.5''
              else if v = 2 then ''gap-0.5''
              else if v = 4 then ''gap-1''
              else if v = 6 then ''gap-1.5''
              else if v = 8 then ''gap-2''
              else if v = 10 then ''gap-2.5''
              else if v = 12 then ''gap-3''
              else if v = 16 then ''gap-4''
              else if v = 20 then ''gap-5''
              else if v = 24 then ''gap-6''
              else if v = 32 then ''gap-8''
              else ''gap-['' @ Number_toString v @ ''px]'')"
    by (simp add: tw_gap_def gapMap_def or_else_def truthy_def)
next
  assume "n_paddingTop q = Some w \<and> n_paddingRight q = Some w \<and>
    n_paddingBottom q = Some w \<and> n_paddingLeft q = Some w"
  then show "tw_padding q =
        Some (if w = 0 then ''p-0''
              else if w = 1 then ''p-0.5''
              else if w = 2 then ''p-0.5''
              else if w = 4 then ''p-1''
              else if w = 6 then ''p-1.5''
              else if w = 8 then ''p-2''
              else if w = 10 then ''p-2.5''
              else if w = 12 then ''p-3''
              else if w = 14 then ''p-3.5''
              else if w = 16 then ''p-4''
              else if w = 20 then ''p-5''
              else if w = 24 then ''p-6''
              else if w = 28 then ''p-7''
              else if w = 32 then ''p-8''
              else if w = 36 then ''p-9''
              else if w = 40 then ''p-10''
              else if w = 44 then ''p-11''
              else if w = 48 then ''p-12''
              else if w = 56 then ''p-14''
              else if w = 64 then ''p-16''
              else ''p-['' @ Number_toString w @ ''px]'')"
    by (simp add: tw_padding_def pad_side_def lookup_num_def spacingMap_def truthy_def
        opt_toString_def)
qed


theorem C2_snap_own_tables_witness:
  "tw_gap (bare\<lparr>n_itemSpacing := Some 0\<rparr>) = Some ''gap-0'' \<and>
   tw_gap (bare\<lparr>n_itemSpacing := Some 8\<rparr>) = Some ''gap-2'' \<and>
   tw_gap (bare\<lparr>n_itemSpacing := Some 7\<rparr>) = Some ''gap-[7px]'' \<and>
   tw_padding (bare\<lparr>n_paddingTop := Some 0, n_paddingRight := Some 0,
                     n_paddingBottom := Some 0, n_paddingLeft := Some 0\<rparr>) = Some ''p-0'' \<and>
   tw_padding (bare\<lparr>n_paddingTop := Some 8, n_paddingRight := Some 8,
                     n_paddingBottom := Some 8, n_paddingLeft := Some 8\<rparr>) = Some ''p-2'' \<and>
   tw_padding (bare\<lparr>n_paddingTop := Some 7, n_paddingRight := Some 7,
                     n_paddingBottom := Some 7, n_paddingLeft := Some 7\<rparr>) = Some ''p-[7px]''"
proof -
  have seven: "Number_toString 7 = ''7''"
    by code_simp
  let ?g = "\<lambda>v. bare\<lparr>n_itemSpacing := Some v\<rparr>"
  let ?q = "\<lambda>w. bare\<lparr>n_paddingTop := Some w, n_paddingRight := Some w,
                     n_paddingBottom := Some w, n_paddingLeft := Some w\<rparr>"
  show ?thesis
    using C2_snap_own_tables [of "?g 0" 0 "?q 0" 0]
          C2_snap_own_tables [of "?g 8" 8 "?q 8" 8]
          C2_snap_own_tables [of "?g 7" 7 "?q 7" 7]
    by (simp add: seven)
qed

text \<open>
  C3 (the input on which the code departs from the claim). The claim gives every solid
  paint with alpha below \<open>1\<close> the arbitrary-value token that embeds the rounded RGB and
  the alpha. A solid white fill whose opacity is \<open>0\<close> is annotated \<open>bg-white\<close> instead,
  the token of an opaque white fill: \<open>opacity || 1\<close> reads the zero as missing. The same
  fill at opacity \<open>1/2\<close> gets the token that embeds the alpha.
\<close>

theorem C3_transparent_white_fill:
  "tw_backgroundColor (bare\<lparr>n_fills := Some [solid 1 1 1 (Some 0)]\<rparr>) = Some ''bg-white'' \<and>
   tw_backgroundColor (bare\<lparr>n_fills := Some [solid 1 1 1 (Some (1/2))]\<rparr>) =
     Some ''bg-[rgb(255 255 255/0.5)]''"
  by code_simp

text \<open>
  C4. For a node with all four padding sides present: when the four are equal, the
  padding entry is exactly one token, \<open>p-\<close> followed by the snapped side; when any two
  differ, it is exactly four tokens, \<open>pt-\<close>, \<open>pr-\<close>, \<open>pb-\<close>, \<open>pl-\<close> in this order, each
  followed by its own side snapped on the padding table (the mapped entry if the side is
  a key, else the number in brackets with \<open>px\<close>), independently of the other sides.
\<close>

theorem C4_padding_collapse:
  assumes "n_paddingTop p = Some t" and "n_paddingRight p = Some r"
    and "n_paddingBottom p = Some b" and "n_paddingLeft p = Some l"
  shows "(t = r \<and> r = b \<and> b = l \<longrightarrow>
            map_option split_sp (tw_padding p) = Some [pad_side ''p'' (Some t)]) \<and>
         (\<not> (t = r \<and> r = b \<and> b = l) \<longrightarrow>
            map_option split_sp (tw_padding p) =
              Some [pad_side ''pt'' (Some t), pad_side ''pr'' (Some r),
                    pad_side ''pb'' (Some b), pad_side ''pl'' (Some l)]) \<and>
         pad_side side (Some v) =
           (case map_of spacingMap v of
              Some name \<Rightarrow> side @ ''-'' @ name
            | None \<Rightarrow> side @ ''-['' @ Number_toString v @ ''px]'')"
proof (intro conjI impI)
  assume eq: "t = r \<and> r = b \<and> b = l"
  have "CHR '' '' \<notin> set (pad_side ''p'' (Some t))"
    by (rule pad_side_no_space) simp
  then have "split_sp (pad_side ''p'' (Some t)) = [pad_side ''p'' (Some t)]"
    by (rule split_sp_word)
  then show "map_option split_sp (tw_padding p) = Some [pad_side ''p'' (Some t)]"
    using assms eq by (simp add: tw_padding_def)
next
  assume ne: "\<not> (t = r \<and> r = b \<and> b = l)"
  have nt: "CHR '' '' \<notin> set (pad_side ''pt'' (Some t))"
    and nr: "CHR '' '' \<notin> set (pad_side ''pr'' (Some r))"
    and nb: "CHR '' '' \<notin> set (pad_side ''pb'' (Some b))"
    and nl: "CHR '' '' \<notin> set (pad_side ''pl'' (Some l))"
    by (rule pad_side_no_space, simp)+
  have "split_sp (pad_side ''pt'' (Some t) @ '' '' @ pad_side ''pr'' (Some r) @ '' '' @
                  pad_side ''pb'' (Some b) @ '' '' @ pad_side ''pl'' (Some l)) =
        [pad_side ''pt'' (Some t), pad_side ''pr'' (Some r),
         pad_side ''pb'' (Some b), pad_side ''pl'' (Some l)]"
    using nt nr nb nl by (simp add: split_sp_append split_sp_word)
  then show "map_option split_sp (tw_padding p) =
              Some [pad_side ''pt'' (Some t), pad_side ''pr'' (Some r),
                    pad_side ''pb'' (Some b), pad_side ''pl'' (Some l)]"
    using assms ne by (cases "t = r"; cases "r = b"; cases "b = l"; simp add: tw_padding_def Let_def)
next
  show "pad_side side (Some v) =
           (case map_of spacingMap v of
              Some name \<Rightarrow> side @ ''-'' @ name
            | None \<Rightarrow> side @ ''-['' @ Number_toString v @ ''px]'')"
    by (rule pad_side_Some)
qed

theorem C4_padding_collapse_witness:
  "map_option split_sp
     (tw_padding (bare\<lparr>n_paddingTop := Some 16, n_paddingRight := Some 16,
                       n_paddingBottom := Some 16, n_paddingLeft := Some 16\<rparr>)) = Some [''p-4''] \<and>
   map_option split_sp
     (tw_padding (bare\<lparr>n_paddingTop := Some 4, n_paddingRight := Some 7,
                       n_paddingBottom := Some 0, n_paddingLeft := Some 7\<rparr>)) =
     Some [''pt-1'', ''pr-[7px]'', ''pb-0'', ''pl-[7px]'']"
proof -
  have seven: "Number_toString 7 = ''7''"
    by code_simp
  have sides: "pad_side ''p'' (Some 16) = ''p-4''" "pad_side ''pt'' (Some 4) = ''pt-1''"
    "pad_side ''pr'' (Some 7) = ''pr-[7px]''" "pad_side ''pb'' (Some 0) = ''pb-0''"
    "pad_side ''pl'' (Some 7) = ''pl-[7px]''"
    by code_simp+
  show ?thesis
    using C4_padding_collapse
            [of "bare\<lparr>n_paddingTop := Some 16, n_paddingRight := Some 16,
                      n_paddingBottom := Some 16, n_paddingLeft := Some 16\<rparr>" 16 16 16 16]
          C4_padding_collapse
            [of "bare\<lparr>n_paddingTop := Some 4, n_paddingRight := Some 7,
                      n_paddingBottom := Some 0, n_paddingLeft := Some 7\<rparr>" 4 7 0 7]
    by (simp add: sides)
qed

text \<open>
  C5. Under layout mode HORIZONTAL the primary-axis alignment MIN, CENTER, MAX gives
  \<open>justify-start\<close>, \<open>justify-center\<close>, \<open>justify-end\<close> and the counter-axis alignment
  gives \<open>items-start\<close>, \<open>items-center\<close>, \<open>items-end\<close>; under VERTICAL the two are
  swapped.
\<close>

theorem C5_alignment_cross_mapping:
  "(n_layoutMode p = Some ''HORIZONTAL'' \<longrightarrow>
      (n_primaryAxisAlignItems p = Some ''MIN'' \<longrightarrow> tw_primaryAlignment p = Some ''justify-start'') \<and>
      (n_primaryAxisAlignItems p = Some ''CENTER'' \<longrightarrow> tw_primaryAlignment p = Some ''justify-center'') \<and>
      (n_primaryAxisAlignItems p = Some ''MAX'' \<longrightarrow> tw_primaryAlignment p = Some ''justify-end'') \<and>
      (n_counterAxisAlignItems p = Some ''MIN'' \<longrightarrow> tw_counterAlignment p = Some ''items-start'') \<and>
      (n_counterAxisAlignItems p = Some ''CENTER'' \<longrightarrow> tw_counterAlignment p = Some ''items-center'') \<and>
      (n_counterAxisAlignItems p = Some ''MAX'' \<longrightarrow> tw_counterAlignment p = Some ''items-end'')) \<and>
   (n_layoutMode p = Some ''VERTICAL'' \<longrightarrow>
      (n_primaryAxisAlignItems p = Some ''MIN'' \<longrightarrow> tw_primaryAlignment p = Some ''items-start'') \<and>
      (n_primaryAxisAlignItems p = Some ''CENTER'' \<longrightarrow> tw_primaryAlignment p = Some ''items-center'') \<and>
      (n_primaryAxisAlignItems p = Some ''MAX'' \<longrightarrow> tw_primaryAlignment p = Some ''items-end'') \<and>
      (n_counterAxisAlignItems p = Some ''MIN'' \<longrightarrow> tw_counterAlignment p = Some ''justify-start'') \<and>
      (n_counterAxisAlignItems p = Some ''CENTER'' \<longrightarrow> tw_counterAlignment p = Some ''justify-center'') \<and>
      (n_counterAxisAlignItems p = Some ''MAX'' \<longrightarrow> tw_counterAlignment p = Some ''justify-end''))"
  by (simp add: tw_primaryAlignment_def tw_counterAlignment_def alignMap_def counterAlignMap_def
      truthy_def)

theorem C5_alignment_cross_mapping_witness:
  "tw_primaryAlignment (bare\<lparr>n_layoutMode := Some ''HORIZONTAL'', n_primaryAxisAlignItems := Some ''MIN'', n_counterAxisAlignItems := Some ''MAX''\<rparr>) = Some ''justify-start'' \<and>
   tw_counterAlignment (bare\<lparr>n_layoutMode := Some ''HORIZONTAL'', n_primaryAxisAlignItems := Some ''MIN'', n_counterAxisAlignItems := Some ''MAX''\<rparr>) = Some ''items-end'' \<and>
   tw_primaryAlignment (bare\<lparr>n_layoutMode := Some ''HORIZONTAL'', n_primaryAxisAlignItems := Some ''CENTER'', n_counterAxisAlignItems := Some ''MIN''\<rparr>) = Some ''justify-center'' \<and>
   tw_counterAlignment (bare\<lparr>n_layoutMode := Some ''HORIZONTAL'', n_primaryAxisAlignItems := Some ''CENTER'', n_counterAxisAlignItems := Some ''MIN''\<rparr>) = Some ''items-start'' \<and>
   tw_primaryAlignment (bare\<lparr>n_layoutMode := Some ''HORIZONTAL'', n_primaryAxisAlignItems := Some ''MAX'', n_counterAxisAlignItems := Some ''CENTER''\<rparr>) = Some ''justify-end'' \<and>
   tw_counterAlignment (bare\<lparr>n_layoutMode := Some ''HORIZONTAL'', n_primaryAxisAlignItems := Some ''MAX'', n_counterAxisAlignItems := Some ''CENTER''\<rparr>) = Some ''items-center'' \<and>
   tw_primaryAlignment (bare\<lparr>n_layoutMode := Some ''VERTICAL'', n_primaryAxisAlignItems := Some ''MIN'', n_counterAxisAlignItems := Some ''MAX''\<rparr>) = Some ''items-start'' \<and>
   tw_counterAlignment (bare\<lparr>n_layoutMode := Some ''VERTICAL'', n_primaryAxisAlignItems := Some ''MIN'', n_counterAxisAlignItems := Some ''MAX''\<rparr>) = Some ''justify-end'' \<and>
   tw_primaryAlignment (bare\<lparr>n_layoutMode := Some ''VERTICAL'', n_primaryAxisAlignItems := Some ''CENTER'', n_counterAxisAlignItems := Some ''MIN''\<rparr>) = Some ''items-center'' \<and>
   tw_counterAlignment (bare\<lparr>n_layoutMode := Some ''VERTICAL'', n_primaryAxisAlignItems := Some ''CENTER'', n_counterAxisAlignItems := Some ''MIN''\<rparr>) = Some ''justify-start'' \<and>
   tw_primaryAlignment (bare\<lparr>n_layoutMode := Some ''VERTICAL'', n_primaryAxisAlignItems := Some ''MAX'', n_counterAxisAlignItems := Some ''CENTER''\<rparr>) = Some ''items-end'' \<and>
   tw_counterAlignment (bare\<lparr>n_layoutMode := Some ''VERTICAL'', n_primaryAxisAlignItems := Some ''MAX'', n_counterAxisAlignItems := Some ''CENTER''\<rparr>) = Some ''justify-center''"
proof -
  let ?n = "\<lambda>m a c. bare\<lparr>n_layoutMode := Some m, n_primaryAxisAlignItems := Some a,
                           n_counterAxisAlignItems := Some c\<rparr>"
  show ?thesis
    using C5_alignment_cross_mapping [of "?n ''HORIZONTAL'' ''MIN'' ''MAX''"]
          C5_alignment_cross_mapping [of "?n ''HORIZONTAL'' ''CENTER'' ''MIN''"]
          C5_alignment_cross_mapping [of "?n ''HORIZONTAL'' ''MAX'' ''CENTER''"]
          C5_alignment_cross_mapping [of "?n ''VERTICAL'' ''MIN'' ''MAX''"]
          C5_alignment_cross_mapping [of "?n ''VERTICAL'' ''CENTER'' ''MIN''"]
          C5_alignment_cross_mapping [of "?n ''VERTICAL'' ''MAX'' ''CENTER''"]
    by simp
qed

text \<open>
  C6. Every entry of the walked tree carries the class string of its node, and that
  string is never empty. A node for which no entry of the style map was pushed gets
  exactly one token, chosen by its type alone: \<open>text-base\<close> for TEXT, \<open>inline-block\<close>
  for VECTOR and BOOLEAN_OPERATION, and \<open>block\<close> for FRAME, GROUP, INSTANCE, RECTANGLE,
  ELLIPSE and every other type.
\<close>

theorem C6_class_string_never_empty:
  "map s_tailwindClasses (entries_of (extractNodeStructure n depth)) =
     map tailwindClasses (nodes_of n) \<and>
   (\<forall>e \<in> set (entries_of (extractNodeStructure n depth)). s_tailwindClasses e \<noteq> []) \<and>
   tailwindClasses p \<noteq> [] \<and>
   (pushed p = [] \<longrightarrow>
      tailwindClassList p =
        [if n_type p = Some ''TEXT'' then ''text-base''
         else if n_type p = Some ''VECTOR'' \<or> n_type p = Some ''BOOLEAN_OPERATION''
           then ''inline-block''
         else ''block''] \<and>
      tailwindClasses p =
        (if n_type p = Some ''TEXT'' then ''text-base''
         else if n_type p = Some ''VECTOR'' \<or> n_type p = Some ''BOOLEAN_OPERATION''
           then ''inline-block''
         else ''block''))"
proof (intro conjI ballI impI)
  show "map s_tailwindClasses (entries_of (extractNodeStructure n depth)) =
     map tailwindClasses (nodes_of n)"
    by (rule extract_classes)
next
  fix e assume "e \<in> set (entries_of (extractNodeStructure n depth))"
  then obtain q where "s_tailwindClasses e = tailwindClasses q"
    using entries_extract_classes by blast
  then show "s_tailwindClasses e \<noteq> []" by (simp add: tailwindClasses_nonempty)
next
  show "tailwindClasses p \<noteq> []" by (rule tailwindClasses_nonempty)
next
  assume "pushed p = []"
  then show "tailwindClassList p =
        [if n_type p = Some ''TEXT'' then ''text-base''
         else if n_type p = Some ''VECTOR'' \<or> n_type p = Some ''BOOLEAN_OPERATION''
           then ''inline-block''
         else ''block'']"
    by (simp add: tailwindClassList_def default_class_def)
next
  assume "pushed p = []"
  then show "tailwindClasses p =
        (if n_type p = Some ''TEXT'' then ''text-base''
         else if n_type p = Some ''VECTOR'' \<or> n_type p = Some ''BOOLEAN_OPERATION''
           then ''inline-block''
         else ''block'')"
    by (simp add: tailwindClasses_def tailwindClassList_def default_class_def)
qed

theorem C6_class_string_never_empty_witness:
  "map s_tailwindClasses
     (entries_of (extractNodeStructure
        (Node (bare\<lparr>n_type := Some ''FRAME'', n_layoutMode := Some ''NONE''\<rparr>)
           [Node (bare\<lparr>n_type := Some ''TEXT''\<rparr>) [],
            Node (bare\<lparr>n_type := Some ''VECTOR''\<rparr>) [],
            Node (bare\<lparr>n_type := Some ''RECTANGLE''\<rparr>) []]) 0)) =
     [''block'', ''text-base'', ''inline-block'', ''block''] \<and>
   map s_tailwindClasses (entries_of (extractNodeStructure image_tree 0)) =
     [''flex flex-col p-4 bg-white'', ''text-[24px]'', ''block'', ''block'', ''inline-block'',
      ''block''] \<and>
   tailwindClasses (bare\<lparr>n_type := Some ''VECTOR''\<rparr>) = ''inline-block'' \<and>
   tailwindClasses (bare\<lparr>n_type := Some ''TEXT''\<rparr>) = ''text-base'' \<and>
   tailwindClasses (bare\<lparr>n_type := Some ''FRAME'', n_layoutMode := Some ''NONE''\<rparr>) = ''block''"
proof -
  let ?t = "Node (bare\<lparr>n_type := Some ''FRAME'', n_layoutMode := Some ''NONE''\<rparr>)
              [Node (bare\<lparr>n_type := Some ''TEXT''\<rparr>) [],
               Node (bare\<lparr>n_type := Some ''VECTOR''\<rparr>) [],
               Node (bare\<lparr>n_type := Some ''RECTANGLE''\<rparr>) []]"
  have none: "pushed (bare\<lparr>n_type := Some ''VECTOR''\<rparr>) = []"
    "pushed (bare\<lparr>n_type := Some ''TEXT''\<rparr>) = []"
    "pushed (bare\<lparr>n_type := Some ''FRAME'', n_layoutMode := Some ''NONE''\<rparr>) = []"
    by code_simp+
  have nodes: "map tailwindClasses (nodes_of ?t) =
                 [''block'', ''text-base'', ''inline-block'', ''block'']"
    "map tailwindClasses (nodes_of image_tree) =
       [''flex flex-col p-4 bg-white'', ''text-[24px]'', ''block'', ''block'', ''inline-block'',
        ''block'']"
    by code_simp+
  show ?thesis
    using C6_class_string_never_empty [of ?t 0 "bare\<lparr>n_type := Some ''VECTOR''\<rparr>"]
          C6_class_string_never_empty [of image_tree 0 "bare\<lparr>n_type := Some ''TEXT''\<rparr>"]
          C6_class_string_never_empty
            [of ?t 0 "bare\<lparr>n_type := Some ''FRAME'', n_layoutMode := Some ''NONE''\<rparr>"]
          none nodes
    by (simp del: extractNodeStructure.simps entries_of.simps nodes_of.simps)
qed

text \<open>
  C7. When the node request has returned the document and the batched image request
  rejects, \<open>getImages\<close> returns the empty mapping (with one warning) and the run still
  returns the report with every field in place: the id, name and type of the root, the
  number of its children, the number of its descendants, the walked tree as it is, the
  time, and the instances and components of the tree in pre-order; no entry of the tree
  has an \<open>imageUrl\<close>. When the image request resolves to a mapping, the report is the
  same except that the tree has the URLs merged in by id: an entry gets the URL the
  mapping holds for its id (if it is a non-empty string) and is otherwise unchanged.
\<close>

theorem C7_image_failure_isolated:
  "(nodeRequest = Inr (Some nodes) \<and> nodes NODE_ID = Some node \<and>
    imageRequest (collectImageNodes node []) = Inl err \<longrightarrow>
      fst (getImages imageRequest (collectImageNodes node [])) = Map.empty \<and>
      length (snd (getImages imageRequest (collectImageNodes node []))) = 1 \<and>
      getNodeStructure NODE_ID nodeRequest imageRequest now =
        Inr \<lparr> nodeId = NODE_ID,
              nodeName = n_name (props node),
              nodeType = n_type (props node),
              directChildrenCount = length (children node),
              totalDescendants = length (nodes_of node) - 1,
              o_structure = extractNodeStructure node 0,
              extractedAt = now,
              componentAnalysis =
                \<lparr> instanceCount =
                    length (filter (\<lambda>p. n_type p = Some ''INSTANCE'' \<and> truthy (n_componentId p) \<noteq> None)
                              (nodes_of node)),
                  componentCount = length (filter (\<lambda>p. n_type p = Some ''COMPONENT'') (nodes_of node)),
                  components =
                    concat (map (\<lambda>p. if n_type p = Some ''COMPONENT''
                                       then [\<lparr>k_id = n_id p, k_name = n_name p\<rparr>] else [])
                             (nodes_of node)),
                  instances =
                    concat (map (\<lambda>p. if n_type p = Some ''INSTANCE''
                                       then (case truthy (n_componentId p) of
                                               Some cid \<Rightarrow> [\<lparr>i_id = n_id p, i_name = n_name p,
                                                             i_componentId = cid\<rparr>]
                                             | None \<Rightarrow> [])
                                       else []) (nodes_of node)) \<rparr> \<rparr> \<and>
      map s_imageUrl (entries_of (extractNodeStructure node 0)) =
        replicate (length (nodes_of node)) None) \<and>
   (nodeRequest = Inr (Some nodes) \<and> nodes NODE_ID = Some node \<and>
    collectImageNodes node [] \<noteq> [] \<and>
    imageRequest (collectImageNodes node []) = Inr (Some images) \<longrightarrow>
      getNodeStructure NODE_ID nodeRequest imageRequest now =
        Inr \<lparr> nodeId = NODE_ID,
              nodeName = n_name (props node),
              nodeType = n_type (props node),
              directChildrenCount = length (children node),
              totalDescendants = length (nodes_of node) - 1,
              o_structure = addImageUrls images (extractNodeStructure node 0),
              extractedAt = now,
              componentAnalysis =
                \<lparr> instanceCount =
                    length (filter (\<lambda>p. n_type p = Some ''INSTANCE'' \<and> truthy (n_componentId p) \<noteq> None)
                              (nodes_of node)),
                  componentCount = length (filter (\<lambda>p. n_type p = Some ''COMPONENT'') (nodes_of node)),
                  components =
                    concat (map (\<lambda>p. if n_type p = Some ''COMPONENT''
                                       then [\<lparr>k_id = n_id p, k_name = n_name p\<rparr>] else [])
                             (nodes_of node)),
                  instances =
                    concat (map (\<lambda>p. if n_type p = Some ''INSTANCE''
                                       then (case truthy (n_componentId p) of
                                               Some cid \<Rightarrow> [\<lparr>i_id = n_id p, i_name = n_name p,
                                                             i_componentId = cid\<rparr>]
                                             | None \<Rightarrow> [])
                                       else []) (nodes_of node)) \<rparr> \<rparr> \<and>
      map s_imageUrl (entries_of (addImageUrls images (extractNodeStructure node 0))) =
        map (\<lambda>p. truthy_url (images (str_toString (n_id p)))) (nodes_of node) \<and>
      map (\<lambda>e. e\<lparr>s_imageUrl := None\<rparr>)
          (entries_of (addImageUrls images (extractNodeStructure node 0))) =
        entries_of (extractNodeStructure node 0))"
  (is "(?fails \<longrightarrow> ?empty \<and> ?warned \<and> ?report \<and> ?no_urls) \<and>
       (?succeeds \<longrightarrow> ?merged \<and> ?urls \<and> ?rest)")
proof -
  have bare_report:
    "outputData NODE_ID node (extractNodeStructure node 0) now =
       \<lparr> nodeId = NODE_ID,
         nodeName = n_name (props node),
         nodeType = n_type (props node),
         directChildrenCount = length (children node),
         totalDescendants = length (nodes_of node) - 1,
         o_structure = extractNodeStructure node 0,
         extractedAt = now,
         componentAnalysis =
           \<lparr> instanceCount =
               length (filter (\<lambda>p. n_type p = Some ''INSTANCE'' \<and> truthy (n_componentId p) \<noteq> None)
                         (nodes_of node)),
             componentCount = length (filter (\<lambda>p. n_type p = Some ''COMPONENT'') (nodes_of node)),
             components =
               concat (map (\<lambda>p. if n_type p = Some ''COMPONENT''
                                  then [\<lparr>k_id = n_id p, k_name = n_name p\<rparr>] else [])
                        (nodes_of node)),
             instances =
               concat (map (\<lambda>p. if n_type p = Some ''INSTANCE''
                                  then (case truthy (n_componentId p) of
                                          Some cid \<Rightarrow> [\<lparr>i_id = n_id p, i_name = n_name p,
                                                        i_componentId = cid\<rparr>]
                                        | None \<Rightarrow> [])
                                  else []) (nodes_of node)) \<rparr> \<rparr>"
    using outputData_extract [of NODE_ID node Map.empty now]
    by (simp only: addImageUrls_empty)
  have f: "?empty \<and> ?warned \<and> ?report" if h: ?fails
  proof -
    from h have nr: "nodeRequest = Inr (Some nodes)" and nn: "nodes NODE_ID = Some node"
      and ir: "imageRequest (collectImageNodes node []) = Inl err"
      by simp_all
    from ir have e: ?empty and w: ?warned
      using getImages_failure by blast+
    have "getNodeStructure NODE_ID nodeRequest imageRequest now =
            Inr (outputData NODE_ID node (extractNodeStructure node 0) now)"
      using getNodeStructure_found [OF nr nn, of imageRequest now] e
      by (simp add: addImageUrls_empty)
    then have ?report by (simp only: bare_report)
    with e w show ?thesis by (simp only: simp_thms)
  qed
  have n: ?no_urls
    by (simp add: extract_imageUrl map_replicate_const)
  have s: ?merged if h: ?succeeds
  proof -
    from h have nr: "nodeRequest = Inr (Some nodes)" and nn: "nodes NODE_ID = Some node"
      and ne: "collectImageNodes node [] \<noteq> []"
      and ir: "imageRequest (collectImageNodes node []) = Inr (Some images)"
      by simp_all
    have "fst (getImages imageRequest (collectImageNodes node [])) = images"
      using ir by (simp add: getImages_def)
    then have "getNodeStructure NODE_ID nodeRequest imageRequest now =
        Inr (outputData NODE_ID node (addImageUrls images (extractNodeStructure node 0)) now)"
      using getNodeStructure_found [OF nr nn, of imageRequest now] ne by simp
    then show ?thesis by (simp only: outputData_extract)
  qed
  have u: ?urls
    by (rule extract_addImageUrls_urls)
  have r: ?rest
    by (simp only: addImageUrls_rest extract_clear_imageUrl)
  show ?thesis
    using f n s u r by blast
qed

theorem C7_image_failure_isolated_witness:
  "getNodeStructure ''1:1'' (Inr (Some [''1:1'' \<mapsto> image_tree]))
       (\<lambda>ids. Inl (Error ''timeout'')) ''2026-11-03T00:00:00.000Z'' =
     Inr \<lparr> nodeId = ''1:1'', nodeName = Some ''Card'', nodeType = Some ''FRAME'',
           directChildrenCount = 4, totalDescendants = 5,
           o_structure =
             Structure
               \<lparr> s_id = Some ''1:1'', s_name = Some ''Card'', s_type = Some ''FRAME'', s_depth = 0,
                 s_visible = None, s_componentId = None, s_componentSetId = None, s_text = None,
                 s_tailwindClasses = ''flex flex-col p-4 bg-white'', s_childrenCount = Some 4,
                 s_imageUrl = None \<rparr>
               [Structure
                  \<lparr> s_id = Some ''1:2'', s_name = Some ''Title'', s_type = Some ''TEXT'', s_depth = 1,
                    s_visible = None, s_componentId = None, s_componentSetId = None,
                    s_text = Some ''Hi'', s_tailwindClasses = ''text-[24px]'', s_childrenCount = None,
                    s_imageUrl = None \<rparr> [],
                Structure
                  \<lparr> s_id = Some ''1:3'', s_name = Some ''Photo'', s_type = Some ''RECTANGLE'',
                    s_depth = 1, s_visible = None, s_componentId = None, s_componentSetId = None,
                    s_text = None, s_tailwindClasses = ''block'', s_childrenCount = None,
                    s_imageUrl = None \<rparr> [],
                Structure
                  \<lparr> s_id = Some ''1:4'', s_name = Some ''Button'', s_type = Some ''INSTANCE'',
                    s_depth = 1, s_visible = None, s_componentId = Some ''9:9'',
                    s_componentSetId = None, s_text = None, s_tailwindClasses = ''block'',
                    s_childrenCount = Some 1, s_imageUrl = None \<rparr>
                  [Structure
                     \<lparr> s_id = Some ''1:5'', s_name = Some ''Icon'', s_type = Some ''VECTOR'',
                       s_depth = 2, s_visible = None, s_componentId = None, s_componentSetId = None,
                       s_text = None, s_tailwindClasses = ''inline-block'', s_childrenCount = None,
                       s_imageUrl = None \<rparr> []],
                Structure
                  \<lparr> s_id = Some ''1:6'', s_name = Some ''Badge'', s_type = Some ''COMPONENT'',
                    s_depth = 1, s_visible = None, s_componentId = None, s_componentSetId = None,
                    s_text = None, s_tailwindClasses = ''block'', s_childrenCount = None,
                    s_imageUrl = None \<rparr> []],
           extractedAt = ''2026-11-03T00:00:00.000Z'',
           componentAnalysis =
             \<lparr> instanceCount = 1, componentCount = 1,
               components = [\<lparr>k_id = Some ''1:6'', k_name = Some ''Badge''\<rparr>],
               instances = [\<lparr>i_id = Some ''1:4'', i_name = Some ''Button'', i_componentId = ''9:9''\<rparr>] \<rparr> \<rparr> \<and>
   fst (getImages (\<lambda>ids. Inl (Error ''timeout'')) (collectImageNodes image_tree [])) = Map.empty \<and>
   getNodeStructure ''1:1'' (Inr (Some [''1:1'' \<mapsto> image_tree]))
       (\<lambda>ids. Inr (Some [''1:3'' \<mapsto> Url ''https://img/1-3.png'']))
       ''2026-11-03T00:00:00.000Z'' =
     Inr \<lparr> nodeId = ''1:1'', nodeName = Some ''Card'', nodeType = Some ''FRAME'',
           directChildrenCount = 4, totalDescendants = 5,
           o_structure =
             Structure
               \<lparr> s_id = Some ''1:1'', s_name = Some ''Card'', s_type = Some ''FRAME'', s_depth = 0,
                 s_visible = None, s_componentId = None, s_componentSetId = None, s_text = None,
                 s_tailwindClasses = ''flex flex-col p-4 bg-white'', s_childrenCount = Some 4,
                 s_imageUrl = None \<rparr>
               [Structure
                  \<lparr> s_id = Some ''1:2'', s_name = Some ''Title'', s_type = Some ''TEXT'', s_depth = 1,
                    s_visible = None, s_componentId = None, s_componentSetId = None,
                    s_text = Some ''Hi'', s_tailwindClasses = ''text-[24px]'', s_childrenCount = None,
                    s_imageUrl = None \<rparr> [],
                Structure
                  \<lparr> s_id = Some ''1:3'', s_name = Some ''Photo'', s_type = Some ''RECTANGLE'',
                    s_depth = 1, s_visible = None, s_componentId = None, s_componentSetId = None,
                    s_text = None, s_tailwindClasses = ''block'', s_childrenCount = None,
                    s_imageUrl = Some ''https://img/1-3.png'' \<rparr> [],
                Structure
                  \<lparr> s_id = Some ''1:4'', s_name = Some ''Button'', s_type = Some ''INSTANCE'',
                    s_depth = 1, s_visible = None, s_componentId = Some ''9:9'',
                    s_componentSetId = None, s_text = None, s_tailwindClasses = ''block'',
                    s_childrenCount = Some 1, s_imageUrl = None \<rparr>
                  [Structure
                     \<lparr> s_id = Some ''1:5'', s_name = Some ''Icon'', s_type = Some ''VECTOR'',
                       s_depth = 2, s_visible = None, s_componentId = None, s_componentSetId = None,
                       s_text = None, s_tailwindClasses = ''inline-block'', s_childrenCount = None,
                       s_imageUrl = None \<rparr> []],
                Structure
                  \<lparr> s_id = Some ''1:6'', s_name = Some ''Badge'', s_type = Some ''COMPONENT'',
                    s_depth = 1, s_visible = None, s_componentId = None, s_componentSetId = None,
                    s_text = None, s_tailwindClasses = ''block'', s_childrenCount = None,
                    s_imageUrl = None \<rparr> []],
           extractedAt = ''2026-11-03T00:00:00.000Z'',
           componentAnalysis =
             \<lparr> instanceCount = 1, componentCount = 1,
               components = [\<lparr>k_id = Some ''1:6'', k_name = Some ''Badge''\<rparr>],
               instances = [\<lparr>i_id = Some ''1:4'', i_name = Some ''Button'', i_componentId = ''9:9''\<rparr>] \<rparr> \<rparr>"
proof -
  have ids: "collectImageNodes image_tree [] = [Some ''1:3'']"
    by code_simp
  have failed:
    "\<lparr> nodeId = ''1:1'',
       nodeName = n_name (props image_tree),
       nodeType = n_type (props image_tree),
       directChildrenCount = length (children image_tree),
       totalDescendants = length (nodes_of image_tree) - 1,
       o_structure = extractNodeStructure image_tree 0,
       extractedAt = ''2026-11-03T00:00:00.000Z'',
       componentAnalysis =
         \<lparr> instanceCount =
             length (filter (\<lambda>p. n_type p = Some ''INSTANCE'' \<and> truthy (n_componentId p) \<noteq> None)
                       (nodes_of image_tree)),
           componentCount = length (filter (\<lambda>p. n_type p = Some ''COMPONENT'') (nodes_of image_tree)),
           components =
             concat (map (\<lambda>p. if n_type p = Some ''COMPONENT''
                                then [\<lparr>k_id = n_id p, k_name = n_name p\<rparr>] else [])
                      (nodes_of image_tree)),
           instances =
             concat (map (\<lambda>p. if n_type p = Some ''INSTANCE''
                                then (case truthy (n_componentId p) of
                                        Some cid \<Rightarrow> [\<lparr>i_id = n_id p, i_name = n_name p,
                                                      i_componentId = cid\<rparr>]
                                      | None \<Rightarrow> [])
                                else []) (nodes_of image_tree)) \<rparr> \<rparr> =
     \<lparr> nodeId = ''1:1'', nodeName = Some ''Card'', nodeType = Some ''FRAME'',
       directChildrenCount = 4, totalDescendants = 5,
       o_structure =
         Structure
           \<lparr> s_id = Some ''1:1'', s_name = Some ''Card'', s_type = Some ''FRAME'', s_depth = 0,
             s_visible = None, s_componentId = None, s_componentSetId = None, s_text = None,
             s_tailwindClasses = ''flex flex-col p-4 bg-white'', s_childrenCount = Some 4,
             s_imageUrl = None \<rparr>
           [Structure
              \<lparr> s_id = Some ''1:2'', s_name = Some ''Title'', s_type = Some ''TEXT'', s_depth = 1,
                s_visible = None, s_componentId = None, s_componentSetId = None,
                s_text = Some ''Hi'', s_tailwindClasses = ''text-[24px]'', s_childrenCount = None,
                s_imageUrl = None \<rparr> [],
            Structure
              \<lparr> s_id = Some ''1:3'', s_name = Some ''Photo'', s_type = Some ''RECTANGLE'',
                s_depth = 1, s_visible = None, s_componentId = None, s_componentSetId = None,
                s_text = None, s_tailwindClasses = ''block'', s_childrenCount = None,
                s_imageUrl = None \<rparr> [],
            Structure
              \<lparr> s_id = Some ''1:4'', s_name = Some ''Button'', s_type = Some ''INSTANCE'',
                s_depth = 1, s_visible = None, s_componentId = Some ''9:9'',
                s_componentSetId = None, s_text = None, s_tailwindClasses = ''block'',
                s_childrenCount = Some 1, s_imageUrl = None \<rparr>
              [Structure
                 \<lparr> s_id = Some ''1:5'', s_name = Some ''Icon'', s_type = Some ''VECTOR'',
                   s_depth = 2, s_visible = None, s_componentId = None, s_componentSetId = None,
                   s_text = None, s_tailwindClasses = ''inline-block'', s_childrenCount = None,
                   s_imageUrl = None \<rparr> []],
            Structure
              \<lparr> s_id = Some ''1:6'', s_name = Some ''Badge'', s_type = Some ''COMPONENT'',
                s_depth = 1, s_visible = None, s_componentId = None, s_componentSetId = None,
                s_text = None, s_tailwindClasses = ''block'', s_childrenCount = None,
                s_imageUrl = None \<rparr> []],
       extractedAt = ''2026-11-03T00:00:00.000Z'',
       componentAnalysis =
         \<lparr> instanceCount = 1, componentCount = 1,
           components = [\<lparr>k_id = Some ''1:6'', k_name = Some ''Badge''\<rparr>],
           instances = [\<lparr>i_id = Some ''1:4'', i_name = Some ''Button'', i_componentId = ''9:9''\<rparr>] \<rparr> \<rparr>"
    by code_simp
  have merged:
    "\<lparr> nodeId = ''1:1'',
       nodeName = n_name (props image_tree),
       nodeType = n_type (props image_tree),
       directChildrenCount = length (children image_tree),
       totalDescendants = length (nodes_of image_tree) - 1,
       o_structure = addImageUrls [''1:3'' \<mapsto> Url ''https://img/1-3.png''] (extractNodeStructure image_tree 0),
       extractedAt = ''2026-11-03T00:00:00.000Z'',
       componentAnalysis =
         \<lparr> instanceCount =
             length (filter (\<lambda>p. n_type p = Some ''INSTANCE'' \<and> truthy (n_componentId p) \<noteq> None)
                       (nodes_of image_tree)),
           componentCount = length (filter (\<lambda>p. n_type p = Some ''COMPONENT'') (nodes_of image_tree)),
           components =
             concat (map (\<lambda>p. if n_type p = Some ''COMPONENT''
                                then [\<lparr>k_id = n_id p, k_name = n_name p\<rparr>] else [])
                      (nodes_of image_tree)),
           instances =
             concat (map (\<lambda>p. if n_type p = Some ''INSTANCE''
                                then (case truthy (n_componentId p) of
                                        Some cid \<Rightarrow> [\<lparr>i_id = n_id p, i_name = n_name p,
                                                      i_componentId = cid\<rparr>]
                                      | None \<Rightarrow> [])
                                else []) (nodes_of image_tree)) \<rparr> \<rparr> =
     \<lparr> nodeId = ''1:1'', nodeName = Some ''Card'', nodeType = Some ''FRAME'',
       directChildrenCount = 4, totalDescendants = 5,
       o_structure =
         Structure
           \<lparr> s_id = Some ''1:1'', s_name = Some ''Card'', s_type = Some ''FRAME'', s_depth = 0,
             s_visible = None, s_componentId = None, s_componentSetId = None, s_text = None,
             s_tailwindClasses = ''flex flex-col p-4 bg-white'', s_childrenCount = Some 4,
             s_imageUrl = None \<rparr>
           [Structure
              \<lparr> s_id = Some ''1:2'', s_name = Some ''Title'', s_type = Some ''TEXT'', s_depth = 1,
                s_visible = None, s_componentId = None, s_componentSetId = None,
                s_text = Some ''Hi'', s_tailwindClasses = ''text-[24px]'', s_childrenCount = None,
                s_imageUrl = None \<rparr> [],
            Structure
              \<lparr> s_id = Some ''1:3'', s_name = Some ''Photo'', s_type = Some ''RECTANGLE'',
                s_depth = 1, s_visible = None, s_componentId = None, s_componentSetId = None,
                s_text = None, s_tailwindClasses = ''block'', s_childrenCount = None,
                s_imageUrl = Some ''https://img/1-3.png'' \<rparr> [],
            Structure
              \<lparr> s_id = Some ''1:4'', s_name = Some ''Button'', s_type = Some ''INSTANCE'',
                s_depth = 1, s_visible = None, s_componentId = Some ''9:9'',
                s_componentSetId = None, s_text = None, s_tailwindClasses = ''block'',
                s_childrenCount = Some 1, s_imageUrl = None \<rparr>
              [Structure
                 \<lparr> s_id = Some ''1:5'', s_name = Some ''Icon'', s_type = Some ''VECTOR'',
                   s_depth = 2, s_visible = None, s_componentId = None, s_componentSetId = None,
                   s_text = None, s_tailwindClasses = ''inline-block'', s_childrenCount = None,
                   s_imageUrl = None \<rparr> []],
            Structure
              \<lparr> s_id = Some ''1:6'', s_name = Some ''Badge'', s_type = Some ''COMPONENT'',
                s_depth = 1, s_visible = None, s_componentId = None, s_componentSetId = None,
                s_text = None, s_tailwindClasses = ''block'', s_childrenCount = None,
                s_imageUrl = None \<rparr> []],
       extractedAt = ''2026-11-03T00:00:00.000Z'',
       componentAnalysis =
         \<lparr> instanceCount = 1, componentCount = 1,
           components = [\<lparr>k_id = Some ''1:6'', k_name = Some ''Badge''\<rparr>],
           instances = [\<lparr>i_id = Some ''1:4'', i_name = Some ''Button'', i_componentId = ''9:9''\<rparr>] \<rparr> \<rparr>"
    by code_simp
  have found: "[''1:1'' \<mapsto> image_tree] ''1:1'' = Some image_tree"
    by simp
  have some: "collectImageNodes image_tree [] \<noteq> []"
    by (simp add: ids)
  from C7_image_failure_isolated
         [of "Inr (Some [''1:1'' \<mapsto> image_tree])" "[''1:1'' \<mapsto> image_tree]" "''1:1''"
             image_tree "\<lambda>ids. Inl (Error ''timeout'')" "Error ''timeout''"
             "''2026-11-03T00:00:00.000Z''" "[''1:3'' \<mapsto> Url ''https://img/1-3.png'']"]
  have run1:
    "getNodeStructure ''1:1'' (Inr (Some [''1:1'' \<mapsto> image_tree]))
       (\<lambda>ids. Inl (Error ''timeout'')) ''2026-11-03T00:00:00.000Z'' =
     Inr \<lparr> nodeId = ''1:1'',
       nodeName = n_name (props image_tree),
       nodeType = n_type (props image_tree),
       directChildrenCount = length (children image_tree),
       totalDescendants = length (nodes_of image_tree) - 1,
       o_structure = extractNodeStructure image_tree 0,
       extractedAt = ''2026-11-03T00:00:00.000Z'',
       componentAnalysis =
         \<lparr> instanceCount =
             length (filter (\<lambda>p. n_type p = Some ''INSTANCE'' \<and> truthy (n_componentId p) \<noteq> None)
                       (nodes_of image_tree)),
           componentCount = length (filter (\<lambda>p. n_type p = Some ''COMPONENT'') (nodes_of image_tree)),
           components =
             concat (map (\<lambda>p. if n_type p = Some ''COMPONENT''
                                then [\<lparr>k_id = n_id p, k_name = n_name p\<rparr>] else [])
                      (nodes_of image_tree)),
           instances =
             concat (map (\<lambda>p. if n_type p = Some ''INSTANCE''
                                then (case truthy (n_componentId p) of
                                        Some cid \<Rightarrow> [\<lparr>i_id = n_id p, i_name = n_name p,
                                                      i_componentId = cid\<rparr>]
                                      | None \<Rightarrow> [])
                                else []) (nodes_of image_tree)) \<rparr> \<rparr>"
    and empty:
    "fst (getImages (\<lambda>ids. Inl (Error ''timeout'')) (collectImageNodes image_tree [])) = Map.empty"
    using found by (simp_all only: simp_thms)
  from C7_image_failure_isolated
         [of "Inr (Some [''1:1'' \<mapsto> image_tree])" "[''1:1'' \<mapsto> image_tree]" "''1:1''"
             image_tree "\<lambda>ids. Inr (Some [''1:3'' \<mapsto> Url ''https://img/1-3.png''])"
             "Error ''unused''"
             "''2026-11-03T00:00:00.000Z''" "[''1:3'' \<mapsto> Url ''https://img/1-3.png'']"]
  have run2:
    "getNodeStructure ''1:1'' (Inr (Some [''1:1'' \<mapsto> image_tree]))
       (\<lambda>ids. Inr (Some [''1:3'' \<mapsto> Url ''https://img/1-3.png'']))
       ''2026-11-03T00:00:00.000Z'' =
     Inr \<lparr> nodeId = ''1:1'',
       nodeName = n_name (props image_tree),
       nodeType = n_type (props image_tree),
       directChildrenCount = length (children image_tree),
       totalDescendants = length (nodes_of image_tree) - 1,
       o_structure = addImageUrls [''1:3'' \<mapsto> Url ''https://img/1-3.png''] (extractNodeStructure image_tree 0),
       extractedAt = ''2026-11-03T00:00:00.000Z'',
       componentAnalysis =
         \<lparr> instanceCount =
             length (filter (\<lambda>p. n_type p = Some ''INSTANCE'' \<and> truthy (n_componentId p) \<noteq> None)
                       (nodes_of image_tree)),
           componentCount = length (filter (\<lambda>p. n_type p = Some ''COMPONENT'') (nodes_of image_tree)),
           components =
             concat (map (\<lambda>p. if n_type p = Some ''COMPONENT''
                                then [\<lparr>k_id = n_id p, k_name = n_name p\<rparr>] else [])
                      (nodes_of image_tree)),
           instances =
             concat (map (\<lambda>p. if n_type p = Some ''INSTANCE''
                                then (case truthy (n_componentId p) of
                                        Some cid \<Rightarrow> [\<lparr>i_id = n_id p, i_name = n_name p,
                                                      i_componentId = cid\<rparr>]
                                      | None \<Rightarrow> [])
                                else []) (nodes_of image_tree)) \<rparr> \<rparr>"
    using found some by (simp only: simp_thms)
  show ?thesis
    unfolding run1 run2 failed merged empty by (simp only: simp_thms)
qed

text \<open>
  C8. The entries pushed for display or layout mode, primary-axis alignment, counter-axis
  alignment, item spacing, width, height, padding, background colour, border width,
  border colour, border radius, font size, font family, font weight, text alignment,
  opacity and drop shadow appear in the class list in this relative order, whichever of
  them the node has (the list of these entries is a subsequence of the class list). The
  class string is the list joined by single spaces: its words are the words of the list's
  entries in the list's order, so the words of the claimed entries appear in the class
  string in the claimed order. Width and height are always the bracketed pixel value of
  the bounding box rounded to a nearest integer.
\<close>

theorem C8_token_order:
  "subseq
     (push (tw_display p) @ push (tw_flexDirection p) @ push (tw_primaryAlignment p) @
      push (tw_counterAlignment p) @ push (tw_gap p) @
      push (tw_width p) @ push (tw_height p) @ push (tw_padding p) @
      push (tw_backgroundColor p) @ push (tw_borderWidth p) @ push (tw_borderColor p) @
      push (tw_borderRadius p) @ push (tw_fontSize p) @ push (tw_fontFamily p) @
      push (tw_fontWeight p) @ push (tw_textAlign p) @ push (tw_opacity p) @
      push (tw_shadow p))
     (tailwindClassList p) \<and>
   tailwindClasses p = join_sp (tailwindClassList p) \<and>
   split_sp (tailwindClasses p) = concat (map split_sp (tailwindClassList p)) \<and>
   subseq
     (concat (map split_sp
     (push (tw_display p) @ push (tw_flexDirection p) @ push (tw_primaryAlignment p) @
      push (tw_counterAlignment p) @ push (tw_gap p) @
      push (tw_width p) @ push (tw_height p) @ push (tw_padding p) @
      push (tw_backgroundColor p) @ push (tw_borderWidth p) @ push (tw_borderColor p) @
      push (tw_borderRadius p) @ push (tw_fontSize p) @ push (tw_fontFamily p) @
      push (tw_fontWeight p) @ push (tw_textAlign p) @ push (tw_opacity p) @
      push (tw_shadow p))))
     (split_sp (tailwindClasses p)) \<and>
   (n_absoluteBoundingBox p = Some box \<longrightarrow>
      tw_width p = Some (''w-['' @ int_toString (Math_round (bb_width box)) @ ''px]'') \<and>
      tw_height p = Some (''h-['' @ int_toString (Math_round (bb_height box)) @ ''px]'') \<and>
      \<bar>of_int (Math_round (bb_width box)) - bb_width box\<bar> \<le> 1 / 2 \<and>
      \<bar>of_int (Math_round (bb_height box)) - bb_height box\<bar> \<le> 1 / 2)"
proof (intro conjI impI)
  show "subseq
     (push (tw_display p) @ push (tw_flexDirection p) @ push (tw_primaryAlignment p) @
      push (tw_counterAlignment p) @ push (tw_gap p) @
      push (tw_width p) @ push (tw_height p) @ push (tw_padding p) @
      push (tw_backgroundColor p) @ push (tw_borderWidth p) @ push (tw_borderColor p) @
      push (tw_borderRadius p) @ push (tw_fontSize p) @ push (tw_fontFamily p) @
      push (tw_fontWeight p) @ push (tw_textAlign p) @ push (tw_opacity p) @
      push (tw_shadow p))
     (tailwindClassList p)"
    by (rule claimed_in_classList)
next
  show "tailwindClasses p = join_sp (tailwindClassList p)"
    by (rule tailwindClasses_def)
next
  show sp: "split_sp (tailwindClasses p) = concat (map split_sp (tailwindClassList p))"
    unfolding tailwindClasses_def
    by (rule split_sp_join_sp) (rule tailwindClassList_nonempty)
  have "subseq
     (push (tw_display p) @ push (tw_flexDirection p) @ push (tw_primaryAlignment p) @
      push (tw_counterAlignment p) @ push (tw_gap p) @
      push (tw_width p) @ push (tw_height p) @ push (tw_padding p) @
      push (tw_backgroundColor p) @ push (tw_borderWidth p) @ push (tw_borderColor p) @
      push (tw_borderRadius p) @ push (tw_fontSize p) @ push (tw_fontFamily p) @
      push (tw_fontWeight p) @ push (tw_textAlign p) @ push (tw_opacity p) @
      push (tw_shadow p))
     (tailwindClassList p)"
    by (rule claimed_in_classList)
  then have "subseq
     (concat (map split_sp
     (push (tw_display p) @ push (tw_flexDirection p) @ push (tw_primaryAlignment p) @
      push (tw_counterAlignment p) @ push (tw_gap p) @
      push (tw_width p) @ push (tw_height p) @ push (tw_padding p) @
      push (tw_backgroundColor p) @ push (tw_borderWidth p) @ push (tw_borderColor p) @
      push (tw_borderRadius p) @ push (tw_fontSize p) @ push (tw_fontFamily p) @
      push (tw_fontWeight p) @ push (tw_textAlign p) @ push (tw_opacity p) @
      push (tw_shadow p))))
     (concat (map split_sp (tailwindClassList p)))"
    by (rule subseq_concat_map)
  then show "subseq
     (concat (map split_sp
     (push (tw_display p) @ push (tw_flexDirection p) @ push (tw_primaryAlignment p) @
      push (tw_counterAlignment p) @ push (tw_gap p) @
      push (tw_width p) @ push (tw_height p) @ push (tw_padding p) @
      push (tw_backgroundColor p) @ push (tw_borderWidth p) @ push (tw_borderColor p) @
      push (tw_borderRadius p) @ push (tw_fontSize p) @ push (tw_fontFamily p) @
      push (tw_fontWeight p) @ push (tw_textAlign p) @ push (tw_opacity p) @
      push (tw_shadow p))))
     (split_sp (tailwindClasses p))"
    by (simp only: sp)
next
  assume "n_absoluteBoundingBox p = Some box"
  then show "tw_width p = Some (''w-['' @ int_toString (Math_round (bb_width box)) @ ''px]'')"
    by (simp add: tw_width_def)
next
  assume "n_absoluteBoundingBox p = Some box"
  then show "tw_height p = Some (''h-['' @ int_toString (Math_round (bb_height box)) @ ''px]'')"
    by (simp add: tw_height_def)
next
  show "\<bar>of_int (Math_round (bb_width box)) - bb_width box\<bar> \<le> 1 / 2"
    by (rule Math_round_nearest)
next
  show "\<bar>of_int (Math_round (bb_height box)) - bb_height box\<bar> \<le> 1 / 2"
    by (rule Math_round_nearest)
qed

theorem C8_token_order_witness:
  "tailwindClassList sample =
     [''flex flex-row'', ''justify-center'', ''items-start'', ''gap-2'', ''w-[321px]'',
      ''h-[47px]'', ''pt-1 pr-[7px] pb-1 pl-[7px]'', ''bg-white'', ''border'', ''border-black'',
      ''rounded-lg'', ''text-[24px]'', ''font-inter'', ''font-bold'', ''leading-[32px]'',
      ''text-center'', ''opacity-[50%]'', ''shadow-[0px_4px_6px_rgb(0 0 0/0.25)]''] \<and>
   subseq
     [''flex flex-row'', ''justify-center'', ''items-start'', ''gap-2'', ''w-[321px]'',
      ''h-[47px]'', ''pt-1 pr-[7px] pb-1 pl-[7px]'', ''bg-white'', ''border'', ''border-black'',
      ''rounded-lg'', ''text-[24px]'', ''font-inter'', ''font-bold'',
      ''text-center'', ''opacity-[50%]'', ''shadow-[0px_4px_6px_rgb(0 0 0/0.25)]'']
     (tailwindClassList sample) \<and>
   tw_width sample = Some ''w-[321px]'' \<and> tw_height sample = Some ''h-[47px]'' \<and>
   tailwindClasses sample =
     ''flex flex-row justify-center items-start gap-2 w-[321px] h-[47px] pt-1 pr-[7px] pb-1 pl-[7px] bg-white border border-black rounded-lg text-[24px] font-inter font-bold leading-[32px] text-center opacity-[50%] shadow-[0px_4px_6px_rgb(0 0 0/0.25)]'' \<and>
   split_sp (tailwindClasses sample) =
     [''flex'', ''flex-row'', ''justify-center'', ''items-start'', ''gap-2'', ''w-[321px]'',
      ''h-[47px]'', ''pt-1'', ''pr-[7px]'', ''pb-1'', ''pl-[7px]'', ''bg-white'', ''border'',
      ''border-black'', ''rounded-lg'', ''text-[24px]'', ''font-inter'', ''font-bold'',
      ''leading-[32px]'', ''text-center'', ''opacity-[50%]'', ''shadow-[0px_4px_6px_rgb(0'',
      ''0'', ''0/0.25)]'']"
proof -
  have str: "tailwindClasses sample =
     ''flex flex-row justify-center items-start gap-2 w-[321px] h-[47px] pt-1 pr-[7px] pb-1 pl-[7px] bg-white border border-black rounded-lg text-[24px] font-inter font-bold leading-[32px] text-center opacity-[50%] shadow-[0px_4px_6px_rgb(0 0 0/0.25)]''"
    by code_simp
  have words: "concat (map split_sp (tailwindClassList sample)) =
     [''flex'', ''flex-row'', ''justify-center'', ''items-start'', ''gap-2'', ''w-[321px]'',
      ''h-[47px]'', ''pt-1'', ''pr-[7px]'', ''pb-1'', ''pl-[7px]'', ''bg-white'', ''border'',
      ''border-black'', ''rounded-lg'', ''text-[24px]'', ''font-inter'', ''font-bold'',
      ''leading-[32px]'', ''text-center'', ''opacity-[50%]'', ''shadow-[0px_4px_6px_rgb(0'',
      ''0'', ''0/0.25)]'']"
    by code_simp
  have box: "n_absoluteBoundingBox sample = Some \<lparr>bb_width = 320.5, bb_height = 47.4\<rparr>"
    by (simp add: sample_def)
  have vals:
    "push (tw_display sample) = []" "push (tw_flexDirection sample) = [''flex flex-row'']"
    "push (tw_primaryAlignment sample) = [''justify-center'']"
    "push (tw_counterAlignment sample) = [''items-start'']"
    "push (tw_gap sample) = [''gap-2'']"
    "push (tw_width sample) = [''w-[321px]'']" "push (tw_height sample) = [''h-[47px]'']"
    "push (tw_padding sample) = [''pt-1 pr-[7px] pb-1 pl-[7px]'']"
    "push (tw_backgroundColor sample) = [''bg-white'']"
    "push (tw_borderWidth sample) = [''border'']"
    "push (tw_borderColor sample) = [''border-black'']"
    "push (tw_borderRadius sample) = [''rounded-lg'']"
    "push (tw_fontSize sample) = [''text-[24px]'']"
    "push (tw_fontFamily sample) = [''font-inter'']"
    "push (tw_fontWeight sample) = [''font-bold'']"
    "push (tw_textAlign sample) = [''text-center'']"
    "push (tw_opacity sample) = [''opacity-[50%]'']"
    "push (tw_shadow sample) = [''shadow-[0px_4px_6px_rgb(0 0 0/0.25)]'']"
    by code_simp+
  have wh: "int_toString (Math_round 320.5) = ''321''" "int_toString (Math_round 47.4) = ''47''"
    by code_simp+
  have cl: "tailwindClassList sample =
     [''flex flex-row'', ''justify-center'', ''items-start'', ''gap-2'', ''w-[321px]'',
      ''h-[47px]'', ''pt-1 pr-[7px] pb-1 pl-[7px]'', ''bg-white'', ''border'', ''border-black'',
      ''rounded-lg'', ''text-[24px]'', ''font-inter'', ''font-bold'', ''leading-[32px]'',
      ''text-center'', ''opacity-[50%]'', ''shadow-[0px_4px_6px_rgb(0 0 0/0.25)]'']"
    by code_simp
  from C8_token_order [of sample "\<lparr>bb_width = 320.5, bb_height = 47.4\<rparr>"]
  have "subseq
     [''flex flex-row'', ''justify-center'', ''items-start'', ''gap-2'', ''w-[321px]'',
      ''h-[47px]'', ''pt-1 pr-[7px] pb-1 pl-[7px]'', ''bg-white'', ''border'', ''border-black'',
      ''rounded-lg'', ''text-[24px]'', ''font-inter'', ''font-bold'',
      ''text-center'', ''opacity-[50%]'', ''shadow-[0px_4px_6px_rgb(0 0 0/0.25)]'']
     (tailwindClassList sample)"
    and "tw_width sample = Some ''w-[321px]''" and "tw_height sample = Some ''h-[47px]''"
    using box by (simp_all only: vals wh append.simps simp_thms bounding_box.simps)
  moreover from C8_token_order [of sample "\<lparr>bb_width = 320.5, bb_height = 47.4\<rparr>"]
  have "split_sp (tailwindClasses sample) = concat (map split_sp (tailwindClassList sample))"
    by (elim conjE) assumption
  ultimately show ?thesis using cl str words by (simp only: simp_thms)
qed

text \<open>
  C9. Two runs on the same node response and the same image responses, at times \<open>t1\<close>
  and \<open>t2\<close>, give the same document up to \<open>extractedAt\<close>, which is the time of the run:
  the annotated tree with its class strings, the direct-children count, the
  total-descendant count and the component analysis are equal. A run that fails at one
  time fails with the same error at the other.
\<close>

theorem C9_deterministic_except_timestamp:
  "(getNodeStructure NODE_ID nodeRequest imageRequest t1 = Inr o1 \<and>
    getNodeStructure NODE_ID nodeRequest imageRequest t2 = Inr o2 \<longrightarrow>
      o2 = o1\<lparr>extractedAt := t2\<rparr> \<and> extractedAt o1 = t1 \<and>
      o_structure o2 = o_structure o1 \<and>
      map s_tailwindClasses (entries_of (o_structure o2)) =
        map s_tailwindClasses (entries_of (o_structure o1)) \<and>
      directChildrenCount o2 = directChildrenCount o1 \<and>
      totalDescendants o2 = totalDescendants o1 \<and>
      componentAnalysis o2 = componentAnalysis o1) \<and>
   (getNodeStructure NODE_ID nodeRequest imageRequest t1 = Inl e \<longrightarrow>
      getNodeStructure NODE_ID nodeRequest imageRequest t2 = Inl e)"
proof (intro conjI impI)
  assume h: "getNodeStructure NODE_ID nodeRequest imageRequest t1 = Inr o1 \<and>
    getNodeStructure NODE_ID nodeRequest imageRequest t2 = Inr o2"
  then obtain node struct where o1: "o1 = outputData NODE_ID node struct t1"
    and o2: "o2 = outputData NODE_ID node struct t2"
    by (auto simp: getNodeStructure_def Let_def split: sum.splits option.splits)
  show "o2 = o1\<lparr>extractedAt := t2\<rparr>" by (simp add: o1 o2 outputData_def Let_def)
  show "extractedAt o1 = t1" by (simp add: o1 outputData_def Let_def)
  show "o_structure o2 = o_structure o1" by (simp add: o1 o2 outputData_def Let_def)
  then show "map s_tailwindClasses (entries_of (o_structure o2)) =
        map s_tailwindClasses (entries_of (o_structure o1))" by simp
  show "directChildrenCount o2 = directChildrenCount o1" by (simp add: o1 o2 outputData_def Let_def)
  show "totalDescendants o2 = totalDescendants o1" by (simp add: o1 o2 outputData_def Let_def)
  show "componentAnalysis o2 = componentAnalysis o1" by (simp add: o1 o2 outputData_def Let_def)
next
  assume "getNodeStructure NODE_ID nodeRequest imageRequest t1 = Inl e"
  then show "getNodeStructure NODE_ID nodeRequest imageRequest t2 = Inl e"
    by (auto simp: getNodeStructure_def Let_def split: sum.splits option.splits)
qed

theorem C9_deterministic_except_timestamp_witness:
  "getNodeStructure ''1:1'' (Inr (Some [''1:1'' \<mapsto> image_tree]))
       (\<lambda>ids. Inr (Some [''1:3'' \<mapsto> Url ''https://img/1-3.png'']))
       ''2026-11-03T10:00:00.000Z'' =
     Inr ((outputData ''1:1'' image_tree
             (addImageUrls [''1:3'' \<mapsto> Url ''https://img/1-3.png'']
                (extractNodeStructure image_tree 0))
             ''2026-11-03T09:00:00.000Z'')
          \<lparr>extractedAt := ''2026-11-03T10:00:00.000Z''\<rparr>)"
proof -
  let ?nodes = "[''1:1'' \<mapsto> image_tree]"
  let ?images = "[''1:3'' \<mapsto> Url ''https://img/1-3.png'']"
  let ?run = "getNodeStructure ''1:1'' (Inr (Some ?nodes)) (\<lambda>ids. Inr (Some ?images))"
  let ?struct = "addImageUrls ?images (extractNodeStructure image_tree 0)"
  have ids: "collectImageNodes image_tree [] = [Some ''1:3'']"
    by code_simp
  have img: "fst (getImages (\<lambda>ids. Inr (Some ?images)) [Some ''1:3'']) = ?images"
    by (simp add: getImages_def)
  have run: "?run t = Inr (outputData ''1:1'' image_tree ?struct t)" for t
    using getNodeStructure_found [of "Inr (Some ?nodes)" ?nodes "''1:1''" image_tree
        "\<lambda>ids. Inr (Some ?images)" t]
    by (simp add: ids img)
  show ?thesis
    using C9_deterministic_except_timestamp
            [of "''1:1''" "Inr (Some ?nodes)" "\<lambda>ids. Inr (Some ?images)"
                "''2026-11-03T09:00:00.000Z''"
                "outputData ''1:1'' image_tree ?struct ''2026-11-03T09:00:00.000Z''"
                "''2026-11-03T10:00:00.000Z''"
                "outputData ''1:1'' image_tree ?struct ''2026-11-03T10:00:00.000Z''"]
          run
    by simp
qed

text \<open>
  C10. When the first visible SOLID fill of a node has opacity exactly \<open>0\<close> (and a
  colour), the background token is the table's name for the rounded RGB key if the key is
  in the table, and otherwise the arbitrary-value token with the RGB key and no alpha.
  The same holds for the first visible SOLID stroke and the border-colour token.
\<close>

theorem C10_zero_opacity_as_opaque:
  "(n_fills p = Some fills \<and> find solid_visible fills = Some f \<and>
    p_opacity f = Some 0 \<and> p_color f = Some c \<longrightarrow>
      tw_backgroundColor p =
        Some (case map_of commonColors (rgb_key c) of
                Some name \<Rightarrow> name
              | None \<Rightarrow> ''bg-[rgb('' @ rgb_key c @ '')]'')) \<and>
   (n_strokes p = Some strokes \<and> find solid_visible strokes = Some s \<and>
    p_opacity s = Some 0 \<and> p_color s = Some d \<longrightarrow>
      tw_borderColor p =
        Some (case map_of commonBorderColors (rgb_key d) of
                Some name \<Rightarrow> name
              | None \<Rightarrow> ''border-[rgb('' @ rgb_key d @ '')]''))"
proof (intro conjI impI)
  assume h: "n_fills p = Some fills \<and> find solid_visible fills = Some f \<and>
    p_opacity f = Some 0 \<and> p_color f = Some c"
  then have nf: "n_fills p = Some fills" and ff: "find solid_visible fills = Some f"
    and op: "p_opacity f = Some 0" and co: "p_color f = Some c"
    by simp_all
  have len: "0 < length fills" using ff by (rule find_Some_nonempty)
  have "paint_token ''bg'' commonColors f =
          Some (case map_of commonColors (rgb_key c) of
                  Some name \<Rightarrow> name
                | None \<Rightarrow> ''bg'' @ ''-[rgb('' @ rgb_key c @ '')]'')"
    using op co commonColors_truthy by (rule paint_token_zero_opacity)
  then show "tw_backgroundColor p =
        Some (case map_of commonColors (rgb_key c) of
                Some name \<Rightarrow> name
              | None \<Rightarrow> ''bg-[rgb('' @ rgb_key c @ '')]'')"
    using nf ff len by (simp add: tw_backgroundColor_def split: option.splits)
next
  assume h: "n_strokes p = Some strokes \<and> find solid_visible strokes = Some s \<and>
    p_opacity s = Some 0 \<and> p_color s = Some d"
  then have ns: "n_strokes p = Some strokes" and fs: "find solid_visible strokes = Some s"
    and op: "p_opacity s = Some 0" and co: "p_color s = Some d"
    by simp_all
  have len: "0 < length strokes" using fs by (rule find_Some_nonempty)
  have "paint_token ''border'' commonBorderColors s =
          Some (case map_of commonBorderColors (rgb_key d) of
                  Some name \<Rightarrow> name
                | None \<Rightarrow> ''border'' @ ''-[rgb('' @ rgb_key d @ '')]'')"
    using op co commonBorderColors_truthy by (rule paint_token_zero_opacity)
  then show "tw_borderColor p =
        Some (case map_of commonBorderColors (rgb_key d) of
                Some name \<Rightarrow> name
              | None \<Rightarrow> ''border-[rgb('' @ rgb_key d @ '')]'')"
    using ns fs len by (simp add: tw_borderColor_def split: option.splits)
qed

theorem C10_zero_opacity_as_opaque_witness:
  "tw_backgroundColor (bare\<lparr>n_fills := Some [solid 1 1 1 (Some 0)],
                            n_strokes := Some [solid (1/2) (1/2) (1/2) (Some 0)]\<rparr>) = Some ''bg-white'' \<and>
   tw_borderColor (bare\<lparr>n_fills := Some [solid 1 1 1 (Some 0)],
                        n_strokes := Some [solid (1/2) (1/2) (1/2) (Some 0)]\<rparr>) = Some ''border-[rgb(128 128 128)]''"
proof -
  let ?p = "bare\<lparr>n_fills := Some [solid 1 1 1 (Some 0)],
                  n_strokes := Some [solid (1/2) (1/2) (1/2) (Some 0)]\<rparr>"
  have k1: "rgb_key \<lparr>c_r = 1, c_g = 1, c_b = 1, c_a = None\<rparr> = ''255 255 255''"
    by code_simp
  have k2: "rgb_key \<lparr>c_r = 1/2, c_g = 1/2, c_b = 1/2, c_a = None\<rparr> = ''128 128 128''"
    by code_simp
  show ?thesis
    using C10_zero_opacity_as_opaque [of ?p "[solid 1 1 1 (Some 0)]" "solid 1 1 1 (Some 0)"
        "\<lparr>c_r = 1, c_g = 1, c_b = 1, c_a = None\<rparr>"
        "[solid (1/2) (1/2) (1/2) (Some 0)]" "solid (1/2) (1/2) (1/2) (Some 0)"
        "\<lparr>c_r = 1/2, c_g = 1/2, c_b = 1/2, c_a = None\<rparr>"]
    by (simp add: bare_def solid_def solid_visible_def k1 k2 commonColors_def commonBorderColors_def)
qed

end
